theory Spec2Isabelle
  imports Main "HOL-Library.Sublist" "HOL-Library.Multiset"
begin

section \<open>Values, rows and exceptions\<close>

text \<open>
  The fishing bot of \<^verbatim>\<open>examples/example1.py\<close> keeps its state in two SQL tables and talks
  to the chat platform through a \<^verbatim>\<open>Context\<close>. A column value is an integer, a text or
  NULL; a row (and the \<^verbatim>\<open>dict\<close> made from it) is an association list from column
  names to values, in column order.

  The engine selected by \<^verbatim>\<open>initBot(prefix="~", db_type="sqlite")\<close> keeps integers in 64
  bits. \<open>SqlReal\<close> stands for a number that has left them: the floating-point value an
  overflowing sum or a text with a fraction or an exponent gives, and whatever later
  arithmetic makes of it. The model does not follow its digits.
\<close>

datatype sqlval = SqlInt int | SqlReal | SqlText string | SqlNull

definition int64 :: "int \<Rightarrow> bool" where
  "int64 i = (- (2 ^ 63) \<le> i \<and> i < 2 ^ 63)"

type_synonym row = "(string \<times> sqlval) list"

text \<open>
  The exceptions the modelled code can raise. \<open>FloatNotFollowed\<close> is not one of them:
  it marks a run in which Python code computes with a floating-point value, which is
  where the model stops.
\<close>

datatype error =
  StorageError | PlatformError | ValueError | TypeError | AttributeError | KeyError
  | OverflowError | FloatNotFollowed

section \<open>The storage engine and the Database wrapper\<close>

text \<open>
  A column definition is the parsed form of the constraint string handed to
  \<^verbatim>\<open>create_table\<close>: \<^verbatim>\<open>"INTEGER PRIMARY KEY"\<close> is type INTEGER with the primary-key flag,
  \<^verbatim>\<open>"INTEGER DEFAULT 0"\<close> is type INTEGER with default 0. A column without a DEFAULT
  clause has default NULL.
\<close>

record coldef =
  col_type :: string
  col_primary :: bool
  col_default :: sqlval

record table =
  t_columns :: "(string \<times> coldef) list"
  t_pkey :: "string list"
  t_rows :: "row list"

type_synonym database = "string \<rightharpoonup> table"

text \<open>
  SQL texts are kept as syntax trees. \<open>Param i\<close> is the \<open>i\<close>-th \<^verbatim>\<open>?\<close> of the
  statement, counted from 0 and bound to the \<open>i\<close>-th element of the parameter tuple.
  A WHERE clause is a conjunction of \<^verbatim>\<open>column = expression\<close> tests.
\<close>

datatype expr = Param nat | Lit sqlval | Col string | Add expr expr | Sub expr expr

type_synonym cond = "(string \<times> expr) list"

datatype query = Select "string list option" string cond

datatype stmt =
    Insert string "string list" "expr list"
  | Update string "(string \<times> expr) list" cond
  | Delete string cond
  | CreateTableIfNotExists string "(string \<times> coldef) list" "string list"

definition col_val :: "row \<Rightarrow> string \<Rightarrow> sqlval" where
  "col_val r c = (case map_of r c of Some v \<Rightarrow> v | None \<Rightarrow> SqlNull)"

text \<open>
  Modelled from the spec: how the storage engine reads a text as a number (the engine is
  an external collaborator). After leading white space and an optional sign it takes the
  longest run of digits; a text without digits there counts as 0. When a decimal point
  or a complete exponent follows, the number is floating point. Anything after the
  number is ignored.
\<close>

definition is_space :: "char \<Rightarrow> bool" where
  "is_space c = (c \<in> set [CHR '' '', CHR 0x09, CHR 0x0A, CHR 0x0B, CHR 0x0C, CHR 0x0D])"

definition is_digit :: "char \<Rightarrow> bool" where
  "is_digit c = (c \<in> set ''0123456789'')"

definition digit_value :: "char \<Rightarrow> nat" where
  "digit_value c = length (takeWhile (\<lambda>d. d \<noteq> c) ''0123456789'')"

definition digits_value :: "string \<Rightarrow> nat" where
  "digits_value ds = foldl (\<lambda>n c. 10 * n + digit_value c) 0 ds"

definition exponent_follows :: "string \<Rightarrow> bool" where
  "exponent_follows r =
     (case r of
        [] \<Rightarrow> False
      | c # r1 \<Rightarrow>
          is_digit c
          \<or> ((c = CHR ''+'' \<or> c = CHR ''-'') \<and> (case r1 of [] \<Rightarrow> False | d # r2 \<Rightarrow> is_digit d)))"

definition real_follows :: "string \<Rightarrow> string \<Rightarrow> bool" where
  "real_follows ds rest =
     (case rest of
        [] \<Rightarrow> False
      | c # r \<Rightarrow>
          (c = CHR ''.'' \<and> (ds \<noteq> [] \<or> (case r of [] \<Rightarrow> False | d # r1 \<Rightarrow> is_digit d)))
          \<or> ((c = CHR ''e'' \<or> c = CHR ''E'') \<and> ds \<noteq> [] \<and> exponent_follows r))"

definition int_or_real :: "int \<Rightarrow> sqlval" where
  "int_or_real i = (if int64 i then SqlInt i else SqlReal)"

definition text_numeric :: "string \<Rightarrow> sqlval" where
  "text_numeric s =
     (let s1 = dropWhile is_space s;
          negative = (case s1 of [] \<Rightarrow> False | c # r \<Rightarrow> c = CHR ''-'');
          s2 = (case s1 of
                  [] \<Rightarrow> []
                | c # r \<Rightarrow> if c = CHR ''-'' \<or> c = CHR ''+'' then r else s1);
          ds = takeWhile is_digit s2;
          rest = dropWhile is_digit s2
      in if real_follows ds rest then SqlReal
         else int_or_real (if negative then - int (digits_value ds) else int (digits_value ds)))"

fun numeric :: "sqlval \<Rightarrow> sqlval" where
  "numeric (SqlText s) = text_numeric s"
| "numeric v = v"

text \<open>
  Modelled from the spec: the storage engine's arithmetic (the engine is an external
  collaborator). NULL with anything is NULL; a text operand is read as a number; two
  integers give their sum or difference when it fits in 64 bits and a floating-point
  value when it does not; a floating-point operand gives a floating-point value.
\<close>

fun add_numeric :: "sqlval \<Rightarrow> sqlval \<Rightarrow> sqlval" where
  "add_numeric SqlNull b = SqlNull"
| "add_numeric a SqlNull = SqlNull"
| "add_numeric (SqlInt x) (SqlInt y) = int_or_real (x + y)"
| "add_numeric a b = SqlReal"

fun sub_numeric :: "sqlval \<Rightarrow> sqlval \<Rightarrow> sqlval" where
  "sub_numeric SqlNull b = SqlNull"
| "sub_numeric a SqlNull = SqlNull"
| "sub_numeric (SqlInt x) (SqlInt y) = int_or_real (x - y)"
| "sub_numeric a b = SqlReal"

definition sql_add :: "sqlval \<Rightarrow> sqlval \<Rightarrow> sqlval" where
  "sql_add a b = add_numeric (numeric a) (numeric b)"

definition sql_sub :: "sqlval \<Rightarrow> sqlval \<Rightarrow> sqlval" where
  "sql_sub a b = sub_numeric (numeric a) (numeric b)"

fun eval_expr :: "sqlval list \<Rightarrow> row \<Rightarrow> expr \<Rightarrow> sqlval" where
  "eval_expr ps r (Param i) = (if i < length ps then ps ! i else SqlNull)"
| "eval_expr ps r (Lit v) = v"
| "eval_expr ps r (Col c) = col_val r c"
| "eval_expr ps r (Add a b) = sql_add (eval_expr ps r a) (eval_expr ps r b)"
| "eval_expr ps r (Sub a b) = sql_sub (eval_expr ps r a) (eval_expr ps r b)"

fun expr_params :: "expr \<Rightarrow> nat" where
  "expr_params (Param i) = 1"
| "expr_params (Lit v) = 0"
| "expr_params (Col c) = 0"
| "expr_params (Add a b) = expr_params a + expr_params b"
| "expr_params (Sub a b) = expr_params a + expr_params b"

fun expr_cols :: "expr \<Rightarrow> string list" where
  "expr_cols (Param i) = []"
| "expr_cols (Lit v) = []"
| "expr_cols (Col c) = [c]"
| "expr_cols (Add a b) = expr_cols a @ expr_cols b"
| "expr_cols (Sub a b) = expr_cols a @ expr_cols b"

definition pairs_params :: "(string \<times> expr) list \<Rightarrow> nat" where
  "pairs_params ces = sum_list (map (\<lambda>ce. expr_params (snd ce)) ces)"

definition pairs_cols :: "(string \<times> expr) list \<Rightarrow> string list" where
  "pairs_cols ces = concat (map (\<lambda>ce. fst ce # expr_cols (snd ce)) ces)"

definition known_cols :: "table \<Rightarrow> string list \<Rightarrow> bool" where
  "known_cols tb cs = list_all (\<lambda>c. c \<in> set (map fst (t_columns tb))) cs"

text \<open>
  The test \<^verbatim>\<open>column = ?\<close> of a WHERE clause. The columns tested are declared INTEGER or
  TEXT and the parameters are integers and texts: two integers or two texts are equal
  when they are the same; an integer never equals a text; a comparison with NULL is
  never true; and a floating-point value stored in such a column has no exact integer
  form, so it equals no parameter.
\<close>

fun sql_eq :: "sqlval \<Rightarrow> sqlval \<Rightarrow> bool" where
  "sql_eq (SqlInt x) (SqlInt y) = (x = y)"
| "sql_eq (SqlText s) (SqlText t) = (s = t)"
| "sql_eq a b = False"

text \<open>
  Binding the parameter tuple: a Python integer outside the 64-bit range cannot be bound
  and raises OverflowError.
\<close>

definition bindable :: "sqlval list \<Rightarrow> bool" where
  "bindable ps = list_all (\<lambda>p. case p of SqlInt i \<Rightarrow> int64 i | _ \<Rightarrow> True) ps"

definition row_matches :: "sqlval list \<Rightarrow> cond \<Rightarrow> row \<Rightarrow> bool" where
  "row_matches ps conds r =
     list_all (\<lambda>ce. sql_eq (col_val r (fst ce)) (eval_expr ps r (snd ce))) conds"

definition project :: "string list option \<Rightarrow> row \<Rightarrow> row" where
  "project cols r = (case cols of None \<Rightarrow> r | Some cs \<Rightarrow> map (\<lambda>c. (c, col_val r c)) cs)"

text \<open>
  Modelled from the spec: the result set of a parameterized read on the storage engine
  (the engine and \<^verbatim>\<open>spc/database.py\<close> are not among the sources). A missing table, an
  unknown column or a parameter tuple of the wrong length is a \<open>StorageError\<close>; then
  the parameters are bound.
\<close>

fun run_query :: "query \<Rightarrow> sqlval list \<Rightarrow> database \<Rightarrow> error + row list" where
  "run_query (Select cols t conds) ps d =
     (case d t of
        None \<Rightarrow> Inl StorageError
      | Some tb \<Rightarrow>
          if length ps \<noteq> pairs_params conds then Inl StorageError
          else if \<not> known_cols tb (pairs_cols conds @ (case cols of None \<Rightarrow> [] | Some cs \<Rightarrow> cs))
          then Inl StorageError
          else if \<not> bindable ps then Inl OverflowError
          else Inr (map (project cols) (filter (row_matches ps conds) (t_rows tb))))"

text \<open>
  Modelled from the spec: \<^verbatim>\<open>Database.get(sql, params, one)\<close> of \<^verbatim>\<open>spc/database.py\<close>,
  which is not among the sources. With \<^verbatim>\<open>one=True\<close> it returns the first row of the
  result set or the absent sentinel (\<open>None\<close>); otherwise the ordered sequence of rows.
\<close>

datatype get_result = One "row option" | Many "row list"

definition db_get :: "query \<Rightarrow> sqlval list \<Rightarrow> bool \<Rightarrow> database \<Rightarrow> error + get_result" where
  "db_get q ps one d =
     (case run_query q ps d of
        Inl e \<Rightarrow> Inl e
      | Inr rs \<Rightarrow>
          Inr (if one then One (case rs of [] \<Rightarrow> None | r # _ \<Rightarrow> Some r) else Many rs))"

definition stmt_params :: "stmt \<Rightarrow> nat" where
  "stmt_params s =
     (case s of
        Insert t cols vals \<Rightarrow> sum_list (map expr_params vals)
      | Update t sets conds \<Rightarrow> pairs_params sets + pairs_params conds
      | Delete t conds \<Rightarrow> pairs_params conds
      | CreateTableIfNotExists t cols pk \<Rightarrow> 0)"

definition key_of :: "string list \<Rightarrow> row \<Rightarrow> sqlval list" where
  "key_of pk r = map (col_val r) pk"

definition new_row :: "table \<Rightarrow> string list \<Rightarrow> expr list \<Rightarrow> sqlval list \<Rightarrow> row" where
  "new_row tb cols vals ps =
     map (\<lambda>cd. (fst cd,
            (case map_of (zip cols vals) (fst cd) of
               Some e \<Rightarrow> eval_expr ps [] e
             | None \<Rightarrow> col_default (snd cd))))
         (t_columns tb)"

definition update_row :: "sqlval list \<Rightarrow> (string \<times> expr) list \<Rightarrow> cond \<Rightarrow> row \<Rightarrow> row" where
  "update_row ps sets conds r =
     (if row_matches ps conds r
      then map (\<lambda>cv. (fst cv,
                 (case map_of sets (fst cv) of
                    Some e \<Rightarrow> eval_expr ps r e
                  | None \<Rightarrow> snd cv))) r
      else r)"

text \<open>
  Modelled from the spec: the effect of a parameterized statement without result rows on
  the storage engine. The statement is checked and its parameters are bound as for a
  read. INSERT appends a row and fails on a duplicate primary key; UPDATE
  rewrites every matching row in one step, reading the old row on the right-hand sides;
  DELETE removes the matching rows; CREATE TABLE IF NOT EXISTS leaves an existing table
  alone.
\<close>

fun run_stmt :: "stmt \<Rightarrow> sqlval list \<Rightarrow> database \<Rightarrow> error + database" where
  "run_stmt (Insert t cols vals) ps d =
     (case d t of
        None \<Rightarrow> Inl StorageError
      | Some tb \<Rightarrow>
          if length ps \<noteq> stmt_params (Insert t cols vals) \<or> length cols \<noteq> length vals
             \<or> \<not> known_cols tb (cols @ concat (map expr_cols vals))
          then Inl StorageError
          else if \<not> bindable ps then Inl OverflowError
          else
            let r = new_row tb cols vals ps in
            if t_pkey tb \<noteq> [] \<and> key_of (t_pkey tb) r \<in> set (map (key_of (t_pkey tb)) (t_rows tb))
            then Inl StorageError
            else Inr (d(t \<mapsto> tb\<lparr>t_rows := t_rows tb @ [r]\<rparr>)))"
| "run_stmt (Update t sets conds) ps d =
     (case d t of
        None \<Rightarrow> Inl StorageError
      | Some tb \<Rightarrow>
          if length ps \<noteq> stmt_params (Update t sets conds)
             \<or> \<not> known_cols tb (pairs_cols sets @ pairs_cols conds)
          then Inl StorageError
          else if \<not> bindable ps then Inl OverflowError
          else
            let rs = map (update_row ps sets conds) (t_rows tb) in
            if list_ex (\<lambda>ce. fst ce \<in> set (t_pkey tb)) sets
               \<and> \<not> distinct (map (key_of (t_pkey tb)) rs)
            then Inl StorageError
            else Inr (d(t \<mapsto> tb\<lparr>t_rows := rs\<rparr>)))"
| "run_stmt (Delete t conds) ps d =
     (case d t of
        None \<Rightarrow> Inl StorageError
      | Some tb \<Rightarrow>
          if length ps \<noteq> stmt_params (Delete t conds) \<or> \<not> known_cols tb (pairs_cols conds)
          then Inl StorageError
          else if \<not> bindable ps then Inl OverflowError
          else Inr (d(t \<mapsto> tb\<lparr>t_rows := filter (\<lambda>r. \<not> row_matches ps conds r) (t_rows tb)\<rparr>)))"
| "run_stmt (CreateTableIfNotExists t cols pk) ps d =
     (if ps \<noteq> [] then Inl StorageError
      else case d t of
        None \<Rightarrow> Inr (d(t \<mapsto> \<lparr>t_columns = cols, t_pkey = pk, t_rows = []\<rparr>))
      | Some tb \<Rightarrow> Inr d)"

text \<open>
  Modelled from the spec: \<^verbatim>\<open>Database.execute(sql, params)\<close> of \<^verbatim>\<open>spc/database.py\<close>,
  which is not among the sources: it runs the statement and surfaces the engine's
  failure as a \<open>StorageError\<close>; a parameter that cannot be bound raises before the
  engine runs.
\<close>

definition db_execute :: "stmt \<Rightarrow> sqlval list \<Rightarrow> database \<Rightarrow> error + database" where
  "db_execute s ps d = run_stmt s ps d"

text \<open>
  Modelled from the spec: \<^verbatim>\<open>Database.create_table(name, columns)\<close> of
  \<^verbatim>\<open>spc/database.py\<close>, which is not among the sources: it creates the table if absent
  and does not fail if the table already exists. The primary key is made of the columns
  flagged as such.
\<close>

definition create_table :: "string \<Rightarrow> (string \<times> coldef) list \<Rightarrow> database \<Rightarrow> error + database" where
  "create_table n cols d =
     db_execute (CreateTableIfNotExists n cols (map fst (filter (\<lambda>cd. col_primary (snd cd)) cols))) [] d"

section \<open>The platform and the world a handler runs in\<close>

text \<open>
  A handler mutates the database behind \<^verbatim>\<open>ctx.db\<close> and calls into the platform. The
  world holds both: the database, the log of the write statements issued so far, the
  responses sent, the identifiers of the platform messages that still exist, and whether
  the platform currently rejects responses. A raised exception does not undo what was
  done before it, so every action returns the world together with its result.
\<close>

record reply_msg =
  content :: string
  hidden :: bool
  delete_after :: "nat option"

record world =
  store :: database
  journal :: "(stmt \<times> sqlval list) list"
  outbox :: "reply_msg list"
  live :: "nat list"
  reply_fails :: bool

record sender =
  sender_id :: int
  sender_name :: string
  avatar_url :: "string option"

text \<open>
  \<open>db\<close> tells whether \<^verbatim>\<open>ctx.db\<close> is a Database handle (the handle points to the
  world's \<open>store\<close>) or none; \<open>message\<close> is the identifier of the platform message
  the event came with, if any.
\<close>

record bot_context =
  sender :: sender
  db :: bool
  custom_id :: "string option"
  message :: "nat option"

record member =
  member_id :: int
  member_name :: string

definition and_then ::
  "(world \<Rightarrow> (error + 'a) \<times> world) \<Rightarrow> ('a \<Rightarrow> world \<Rightarrow> (error + 'b) \<times> world)
     \<Rightarrow> world \<Rightarrow> (error + 'b) \<times> world" where
  "and_then m f w = (case m w of (Inl e, w1) \<Rightarrow> (Inl e, w1) | (Inr x, w1) \<Rightarrow> f x w1)"

text \<open>\<^verbatim>\<open>try: ... except: pass\<close>: whatever the body raises is dropped.\<close>

definition try_pass :: "(world \<Rightarrow> (error + unit) \<times> world) \<Rightarrow> world \<Rightarrow> (error + unit) \<times> world" where
  "try_pass m w = (case m w of (r, w1) \<Rightarrow> (Inr (), w1))"

text \<open>
  \<^verbatim>\<open>ctx.db.execute(sql, params)\<close> and \<^verbatim>\<open>ctx.db.get(sql, params, one=...)\<close> on the world's
  database. Every statement handed to \<open>execute\<close> is logged, whether it succeeds or not.
  The last case of \<open>get_one\<close> and of \<open>get_all\<close> cannot occur: \<open>db_get\<close> answers
  \<open>One\<close> exactly when \<open>one\<close> is set.
\<close>

definition execute :: "stmt \<Rightarrow> sqlval list \<Rightarrow> world \<Rightarrow> (error + unit) \<times> world" where
  "execute s ps w =
     (case db_execute s ps (store w) of
        Inl e \<Rightarrow> (Inl e, w\<lparr>journal := journal w @ [(s, ps)]\<rparr>)
      | Inr d \<Rightarrow> (Inr (), w\<lparr>store := d, journal := journal w @ [(s, ps)]\<rparr>))"

definition get_one :: "query \<Rightarrow> sqlval list \<Rightarrow> world \<Rightarrow> (error + row option) \<times> world" where
  "get_one q ps w =
     (case db_get q ps True (store w) of
        Inl e \<Rightarrow> (Inl e, w)
      | Inr (One r) \<Rightarrow> (Inr r, w)
      | Inr (Many rs) \<Rightarrow> (Inl TypeError, w))"

definition get_all :: "query \<Rightarrow> sqlval list \<Rightarrow> world \<Rightarrow> (error + row list) \<times> world" where
  "get_all q ps w =
     (case db_get q ps False (store w) of
        Inl e \<Rightarrow> (Inl e, w)
      | Inr (Many rs) \<Rightarrow> (Inr rs, w)
      | Inr (One r) \<Rightarrow> (Inl TypeError, w))"

text \<open>
  Modelled from the spec: \<^verbatim>\<open>ctx.reply(content, hidden, delete_after)\<close> of
  \<^verbatim>\<open>spc/objects.py\<close>, which is not among the sources: it sends a response, or raises the
  platform's failure. The delete-after timer is recorded, not run.
\<close>

definition reply :: "bot_context \<Rightarrow> string \<Rightarrow> bool \<Rightarrow> nat option \<Rightarrow> world \<Rightarrow> (error + unit) \<times> world" where
  "reply ctx c h da w =
     (if reply_fails w then (Inl PlatformError, w)
      else (Inr (), w\<lparr>outbox := outbox w @ [\<lparr>content = c, hidden = h, delete_after = da\<rparr>]\<rparr>))"

text \<open>
  Modelled from the spec: \<^verbatim>\<open>ctx.message.delete()\<close>, a call into the platform SDK. Without
  a message the attribute access fails; deleting a message that no longer exists is a
  \<open>PlatformError\<close>.
\<close>

definition delete_message :: "bot_context \<Rightarrow> world \<Rightarrow> (error + unit) \<times> world" where
  "delete_message ctx w =
     (case message ctx of
        None \<Rightarrow> (Inl AttributeError, w)
      | Some m \<Rightarrow>
          if m \<in> set (live w) then (Inr (), w\<lparr>live := removeAll m (live w)\<rparr>)
          else (Inl PlatformError, w))"

section \<open>Python helpers\<close>

text \<open>\<^verbatim>\<open>str(n)\<close> for an integer.\<close>

fun str_nat :: "nat \<Rightarrow> string" where
  "str_nat n =
     (if n < 10 then [''0123456789'' ! n] else str_nat (n div 10) @ [''0123456789'' ! (n mod 10)])"

declare str_nat.simps [simp del]

definition str_int :: "int \<Rightarrow> string" where
  "str_int i = (if i < 0 then CHR ''-'' # str_nat (nat (- i)) else str_nat (nat i))"

text \<open>\<^verbatim>\<open>d.get(key, default)\<close> on a dict.\<close>

definition dict_get :: "row \<Rightarrow> string \<Rightarrow> sqlval \<Rightarrow> sqlval" where
  "dict_get d k dflt = (case map_of d k of Some v \<Rightarrow> v | None \<Rightarrow> dflt)"

text \<open>
  A value read from a row, used as a Python integer in a comparison with an integer or
  in integer arithmetic, where a text or \<^verbatim>\<open>None\<close> raises TypeError.
\<close>

definition py_int :: "sqlval \<Rightarrow> error + int" where
  "py_int v =
     (case v of
        SqlInt i \<Rightarrow> Inr i
      | SqlReal \<Rightarrow> Inl FloatNotFollowed
      | SqlText s \<Rightarrow> Inl TypeError
      | SqlNull \<Rightarrow> Inl TypeError)"

text \<open>\<^verbatim>\<open>s.split(":", 1)\<close>: at most one split, at the first colon.\<close>

definition split_colon_1 :: "string \<Rightarrow> string list" where
  "split_colon_1 s =
     (if CHR '':'' \<in> set s
      then [takeWhile (\<lambda>c. c \<noteq> CHR '':'') s, tl (dropWhile (\<lambda>c. c \<noteq> CHR '':'') s)]
      else [s])"

text \<open>\<^verbatim>\<open>not ctx.custom_id\<close>: true for \<^verbatim>\<open>None\<close> and for the empty string.\<close>

definition no_custom_id :: "bot_context \<Rightarrow> bool" where
  "no_custom_id ctx = (case custom_id ctx of None \<Rightarrow> True | Some s \<Rightarrow> s = [])"

text \<open>\<^verbatim>\<open>row[key]\<close>: a missing key raises KeyError.\<close>

definition row_item :: "row \<Rightarrow> string \<Rightarrow> error + sqlval" where
  "row_item r k = (case map_of r k of Some v \<Rightarrow> Inr v | None \<Rightarrow> Inl KeyError)"

section \<open>The fishing bot: constants and helpers\<close>

record fish =
  name :: string
  coin_value :: int
  chance :: nat
  emoji :: string

text \<open>The emoji are kept as the bytes the source file holds.\<close>

definition FISH_TYPES :: "fish list" where
  "FISH_TYPES =
     [\<lparr>name = ''Old Boot'', coin_value = 0, chance = 30,
        emoji = [CHR 0xEF, CHR 0xA3, CHR 0xBF, CHR 0xC3, CHR 0xBC, CHR 0xC3, CHR 0xAB, CHR 0xC2, CHR 0xA2]\<rparr>,
      \<lparr>name = ''Tiny Minnow'', coin_value = 5, chance = 40,
        emoji = [CHR 0xEF, CHR 0xA3, CHR 0xBF, CHR 0xC3, CHR 0xBC, CHR 0xC3, CHR 0xAA, CHR 0xC3, CHR 0xBC]\<rparr>,
      \<lparr>name = ''Golden Carp'', coin_value = 50, chance = 20,
        emoji = [CHR 0xEF, CHR 0xA3, CHR 0xBF, CHR 0xC3, CHR 0xBC, CHR 0xC3, CHR 0xAA, CHR 0xE2, CHR 0x80, CHR 0xA0]\<rparr>,
      \<lparr>name = ''Legendary Shark'', coin_value = 500, chance = 5,
        emoji = [CHR 0xEF, CHR 0xA3, CHR 0xBF, CHR 0xC3, CHR 0xBC, CHR 0xC2, CHR 0xB6, CHR 0xC3, CHR 0xA0]\<rparr>,
      \<lparr>name = ''Kraken'', coin_value = 2000, chance = 1,
        emoji = [CHR 0xEF, CHR 0xA3, CHR 0xBF, CHR 0xC3, CHR 0xBC, CHR 0xC3, CHR 0xAA, CHR 0xC3, CHR 0xB4]\<rparr>]"

text \<open>
  \<^verbatim>\<open>get_fish_value(name)\<close>: the loop over \<^verbatim>\<open>FISH_TYPES\<close> returns the value of the first
  entry with that name, and 0 after the loop.
\<close>

fun fish_value_in :: "fish list \<Rightarrow> string \<Rightarrow> int" where
  "fish_value_in [] n = 0"
| "fish_value_in (f # fs) n = (if name f = n then coin_value f else fish_value_in fs n)"

definition get_fish_value :: "string \<Rightarrow> int" where
  "get_fish_value n = fish_value_in FISH_TYPES n"

text \<open>The SQL texts of the example, in the order they appear in the source.\<close>

text \<open>\<^verbatim>\<open>SELECT * FROM users WHERE user_id = ?\<close>\<close>

definition select_user :: query where
  "select_user = Select None ''users'' [(''user_id'', Param 0)]"

text \<open>\<^verbatim>\<open>INSERT INTO users (user_id, coins, fishes_caught) VALUES (?, 0, 0)\<close>\<close>

definition insert_user :: stmt where
  "insert_user =
     Insert ''users'' [''user_id'', ''coins'', ''fishes_caught''] [Param 0, Lit (SqlInt 0), Lit (SqlInt 0)]"

text \<open>\<^verbatim>\<open>UPDATE users SET coins = coins + ? WHERE user_id = ?\<close>\<close>

definition update_add_coins :: stmt where
  "update_add_coins =
     Update ''users'' [(''coins'', Add (Col ''coins'') (Param 0))] [(''user_id'', Param 1)]"

text \<open>\<^verbatim>\<open>UPDATE users SET coins = coins - ? WHERE user_id = ?\<close>\<close>

definition update_remove_coins :: stmt where
  "update_remove_coins =
     Update ''users'' [(''coins'', Sub (Col ''coins'') (Param 0))] [(''user_id'', Param 1)]"

text \<open>\<^verbatim>\<open>UPDATE users SET fishes_caught = fishes_caught + 1 WHERE user_id = ?\<close>\<close>

definition update_increment_fish :: stmt where
  "update_increment_fish =
     Update ''users'' [(''fishes_caught'', Add (Col ''fishes_caught'') (Lit (SqlInt 1)))]
       [(''user_id'', Param 0)]"

text \<open>\<^verbatim>\<open>SELECT count FROM inventory WHERE user_id = ? AND fish_name = ?\<close>\<close>

definition select_inventory_count :: query where
  "select_inventory_count =
     Select (Some [''count'']) ''inventory'' [(''user_id'', Param 0), (''fish_name'', Param 1)]"

text \<open>\<^verbatim>\<open>UPDATE inventory SET count = count + 1 WHERE user_id = ? AND fish_name = ?\<close>\<close>

definition update_inventory_count :: stmt where
  "update_inventory_count =
     Update ''inventory'' [(''count'', Add (Col ''count'') (Lit (SqlInt 1)))]
       [(''user_id'', Param 0), (''fish_name'', Param 1)]"

text \<open>\<^verbatim>\<open>INSERT INTO inventory (user_id, fish_name, count) VALUES (?, ?, 1)\<close>\<close>

definition insert_inventory :: stmt where
  "insert_inventory =
     Insert ''inventory'' [''user_id'', ''fish_name'', ''count''] [Param 0, Param 1, Lit (SqlInt 1)]"

text \<open>\<^verbatim>\<open>SELECT * FROM inventory WHERE user_id = ?\<close>\<close>

definition select_inventory :: query where
  "select_inventory = Select None ''inventory'' [(''user_id'', Param 0)]"

text \<open>\<^verbatim>\<open>DELETE FROM inventory WHERE user_id = ?\<close>\<close>

definition delete_inventory :: stmt where
  "delete_inventory = Delete ''inventory'' [(''user_id'', Param 0)]"

text \<open>The column mapping \<^verbatim>\<open>on_ready\<close> hands to \<^verbatim>\<open>create_table("users", ...)\<close>.\<close>

definition users_columns :: "(string \<times> coldef) list" where
  "users_columns =
     [(''user_id'', \<lparr>col_type = ''INTEGER'', col_primary = True, col_default = SqlNull\<rparr>),
      (''coins'', \<lparr>col_type = ''INTEGER'', col_primary = False, col_default = SqlInt 0\<rparr>),
      (''fishes_caught'', \<lparr>col_type = ''INTEGER'', col_primary = False, col_default = SqlInt 0\<rparr>)]"

text \<open>
  \<^verbatim>\<open>CREATE TABLE IF NOT EXISTS inventory (user_id INTEGER, fish_name TEXT, count INTEGER,
  PRIMARY KEY (user_id, fish_name))\<close>
\<close>

definition inventory_columns :: "(string \<times> coldef) list" where
  "inventory_columns =
     [(''user_id'', \<lparr>col_type = ''INTEGER'', col_primary = False, col_default = SqlNull\<rparr>),
      (''fish_name'', \<lparr>col_type = ''TEXT'', col_primary = False, col_default = SqlNull\<rparr>),
      (''count'', \<lparr>col_type = ''INTEGER'', col_primary = False, col_default = SqlNull\<rparr>)]"

definition create_inventory :: stmt where
  "create_inventory =
     CreateTableIfNotExists ''inventory'' inventory_columns [''user_id'', ''fish_name'']"

text \<open>\<^verbatim>\<open>bot.db.create_table(name, columns)\<close> on the world's database; it is logged as a write.\<close>

definition create_table_in :: "string \<Rightarrow> (string \<times> coldef) list \<Rightarrow> world \<Rightarrow> (error + unit) \<times> world" where
  "create_table_in n cols w =
     (let s = CreateTableIfNotExists n cols (map fst (filter (\<lambda>cd. col_primary (snd cd)) cols)) in
      case create_table n cols (store w) of
        Inl e \<Rightarrow> (Inl e, w\<lparr>journal := journal w @ [(s, [])]\<rparr>)
      | Inr d \<Rightarrow> (Inr (), w\<lparr>store := d, journal := journal w @ [(s, [])]\<rparr>))"

text \<open>\<^verbatim>\<open>on_ready\<close>; the argument tells whether \<^verbatim>\<open>bot.db\<close> is set.\<close>

definition on_ready :: "bool \<Rightarrow> world \<Rightarrow> (error + unit) \<times> world" where
  "on_ready has_db w =
     (if has_db
      then and_then (create_table_in ''users'' users_columns) (\<lambda>u. execute create_inventory []) w
      else (Inr (), w))"

definition get_user :: "bot_context \<Rightarrow> world \<Rightarrow> (error + row) \<times> world" where
  "get_user ctx w =
     (if \<not> db ctx then (Inr [], w)
      else
        and_then (get_one select_user [SqlInt (sender_id (sender ctx))])
          (\<lambda>user.
             case user of
               None \<Rightarrow>
                 and_then (execute insert_user [SqlInt (sender_id (sender ctx))])
                   (\<lambda>u. Pair (Inr [(''user_id'', SqlInt (sender_id (sender ctx))),
                                    (''coins'', SqlInt 0), (''fishes_caught'', SqlInt 0)]))
             | Some r \<Rightarrow> Pair (Inr r)) w)"

text \<open>
  \<^verbatim>\<open>uid = user_id if user_id else ctx.sender.id\<close>: a user id that is \<^verbatim>\<open>None\<close> or 0 is
  falsy and gives the sender's.
\<close>

definition add_coins :: "bot_context \<Rightarrow> int \<Rightarrow> int option \<Rightarrow> world \<Rightarrow> (error + unit) \<times> world" where
  "add_coins ctx amount user_id w =
     (if \<not> db ctx then (Inr (), w)
      else
        let uid = (case user_id of
                     None \<Rightarrow> sender_id (sender ctx)
                   | Some u \<Rightarrow> if u \<noteq> 0 then u else sender_id (sender ctx))
        in execute update_add_coins [SqlInt amount, SqlInt uid] w)"

definition remove_coins :: "bot_context \<Rightarrow> int \<Rightarrow> world \<Rightarrow> (error + unit) \<times> world" where
  "remove_coins ctx amount w =
     (if \<not> db ctx then (Inr (), w)
      else execute update_remove_coins [SqlInt amount, SqlInt (sender_id (sender ctx))] w)"

definition increment_fish :: "bot_context \<Rightarrow> world \<Rightarrow> (error + unit) \<times> world" where
  "increment_fish ctx w =
     (if \<not> db ctx then (Inr (), w)
      else execute update_increment_fish [SqlInt (sender_id (sender ctx))] w)"

definition add_to_inventory :: "bot_context \<Rightarrow> string \<Rightarrow> world \<Rightarrow> (error + unit) \<times> world" where
  "add_to_inventory ctx fish_name w =
     (if \<not> db ctx then (Inr (), w)
      else
        and_then (get_user ctx)
          (\<lambda>u. and_then
             (get_one select_inventory_count [SqlInt (sender_id (sender ctx)), SqlText fish_name])
             (\<lambda>r. case r of
                Some x \<Rightarrow>
                  execute update_inventory_count [SqlInt (sender_id (sender ctx)), SqlText fish_name]
              | None \<Rightarrow>
                  execute insert_inventory [SqlInt (sender_id (sender ctx)), SqlText fish_name])) w)"

section \<open>The fishing bot: handlers\<close>

text \<open>The emoji that open the replies, as the bytes the source file holds.\<close>

definition emoji_kept :: string where
  "emoji_kept = [CHR 0xE2, CHR 0x80, CHR 0x9A, CHR 0xC3, CHR 0xBA, CHR 0xC3, CHR 0x96]"

definition emoji_sold :: string where
  "emoji_sold =
     [CHR 0xEF, CHR 0xA3, CHR 0xBF, CHR 0xC3, CHR 0xBC, CHR 0xC3, CHR 0xAD, CHR 0xE2, CHR 0x88, CHR 0x9E]"

definition emoji_trash :: string where
  "emoji_trash =
     [CHR 0xEF, CHR 0xA3, CHR 0xBF, CHR 0xC3, CHR 0xBC, CHR 0xC3, CHR 0xB3, CHR 0xC3, CHR 0xAB,
      CHR 0xC3, CHR 0x94, CHR 0xE2, CHR 0x88, CHR 0x8F, CHR 0xC3, CHR 0xA8]"

definition emoji_transfer :: string where
  "emoji_transfer =
     [CHR 0xEF, CHR 0xA3, CHR 0xBF, CHR 0xC3, CHR 0xBC, CHR 0xC3, CHR 0xAD, CHR 0xE2, CHR 0x88, CHR 0x8F]"

text \<open>
  \<^verbatim>\<open>on_keep_btn\<close>. The unpacking \<^verbatim>\<open>_, fish_name = ctx.custom_id.split(":", 1)\<close> raises
  ValueError unless the split gives two parts. The outer \<^verbatim>\<open>except Exception as e: raise e\<close>
  raises again what it caught; the inner \<^verbatim>\<open>except: pass\<close> around the deletion drops it.
\<close>

definition on_keep_btn :: "bot_context \<Rightarrow> world \<Rightarrow> (error + unit) \<times> world" where
  "on_keep_btn ctx w =
     (if no_custom_id ctx then (Inr (), w)
      else
        case split_colon_1 (case custom_id ctx of Some s \<Rightarrow> s | None \<Rightarrow> []) of
          [p, fish_name] \<Rightarrow>
            and_then (add_to_inventory ctx fish_name)
              (\<lambda>u. and_then (increment_fish ctx)
                 (\<lambda>u. and_then
                    (reply ctx (emoji_kept @ '' Kept **'' @ fish_name @ ''** in your inventory.'')
                       True (Some 3))
                    (\<lambda>u. try_pass (delete_message ctx)))) w
        | _ \<Rightarrow> (Inl ValueError, w))"

definition on_sell_one_btn :: "bot_context \<Rightarrow> world \<Rightarrow> (error + unit) \<times> world" where
  "on_sell_one_btn ctx w =
     (if no_custom_id ctx then (Inr (), w)
      else
        case split_colon_1 (case custom_id ctx of Some s \<Rightarrow> s | None \<Rightarrow> []) of
          [p, fish_name] \<Rightarrow>
            (let val = get_fish_value fish_name in
             and_then (add_coins ctx val None)
               (\<lambda>u. and_then (increment_fish ctx)
                  (\<lambda>u. and_then
                     (reply ctx
                        (emoji_sold @ '' Sold **'' @ fish_name @ ''** for **'' @ str_int val
                           @ ''** coins!'')
                        True (Some 3))
                     (\<lambda>u. try_pass (delete_message ctx)))) w)
        | _ \<Rightarrow> (Inl ValueError, w))"

definition on_trash_btn :: "bot_context \<Rightarrow> world \<Rightarrow> (error + unit) \<times> world" where
  "on_trash_btn ctx w =
     try_pass
       (and_then (reply ctx (emoji_trash @ '' Threw it back into the sea.'') True (Some 3))
          (\<lambda>u. delete_message ctx)) w"

text \<open>
  The loop of \<^verbatim>\<open>sell\<close> over the inventory rows. \<^verbatim>\<open>get_fish_value\<close> of a name that is
  not a text finds no entry; a count that is not an integer makes the arithmetic raise
  TypeError.
\<close>

fun sell_totals :: "row list \<Rightarrow> int \<Rightarrow> int \<Rightarrow> error + int \<times> int" where
  "sell_totals [] total_coins items_sold = Inr (total_coins, items_sold)"
| "sell_totals (r # rs) total_coins items_sold =
     (case row_item r ''fish_name'' of
        Inl e \<Rightarrow> Inl e
      | Inr nm \<Rightarrow>
          (let val = (case nm of SqlText n \<Rightarrow> get_fish_value n | _ \<Rightarrow> 0) in
           (case row_item r ''count'' of
              Inl e \<Rightarrow> Inl e
            | Inr n \<Rightarrow>
                (case py_int n of
                   Inl e \<Rightarrow> Inl e
                 | Inr c \<Rightarrow> sell_totals rs (total_coins + val * c) (items_sold + c)))))"

definition sell :: "bot_context \<Rightarrow> world \<Rightarrow> (error + unit) \<times> world" where
  "sell ctx w =
     (if \<not> db ctx then (Inr (), w)
      else
        and_then (get_all select_inventory [SqlInt (sender_id (sender ctx))])
          (\<lambda>rows.
             if rows = [] then reply ctx ''You have no fish to sell!'' True None
             else
               case sell_totals rows 0 0 of
                 Inl e \<Rightarrow> Pair (Inl e)
               | Inr (total_coins, items_sold) \<Rightarrow>
                   and_then (execute delete_inventory [SqlInt (sender_id (sender ctx))])
                     (\<lambda>u. and_then (add_coins ctx total_coins None)
                        (\<lambda>u. reply ctx
                           (''Sold **'' @ str_int items_sold @ ''** fish for **''
                              @ str_int total_coins @ ''** coins!'')
                           False None))) w)"

definition on_sell_all_btn :: "bot_context \<Rightarrow> world \<Rightarrow> (error + unit) \<times> world" where
  "on_sell_all_btn ctx w = sell ctx w"

text \<open>
  \<^verbatim>\<open>transfer_coins(ctx, user, amount)\<close>. The balance read is
  \<^verbatim>\<open>sender_data.get('coins', 0)\<close>; comparing it with the amount raises TypeError when it is
  a text or \<^verbatim>\<open>None\<close>. The insufficient-funds reply prints the balance that was compared.
\<close>

definition transfer_coins :: "bot_context \<Rightarrow> member \<Rightarrow> int \<Rightarrow> world \<Rightarrow> (error + unit) \<times> world" where
  "transfer_coins ctx user amount w =
     (if \<not> db ctx then (Inr (), w)
      else
        and_then (get_user ctx)
          (\<lambda>sender_data.
             case py_int (dict_get sender_data ''coins'' (SqlInt 0)) of
               Inl e \<Rightarrow> Pair (Inl e)
             | Inr coins \<Rightarrow>
                 if coins < amount
                 then reply ctx (''Not enough coins! You only have '' @ str_int coins @ ''.'')
                        False None
                 else if amount \<le> 0 then reply ctx ''Invalid amount.'' False None
                 else if member_id user = sender_id (sender ctx)
                 then reply ctx ''You cannot transfer to yourself.'' False None
                 else
                   and_then (remove_coins ctx amount)
                     (\<lambda>u. and_then (get_one select_user [SqlInt (member_id user)])
                        (\<lambda>user_sanity_check.
                           and_then
                             (case user_sanity_check of
                                None \<Rightarrow> execute insert_user [SqlInt (member_id user)]
                              | Some r \<Rightarrow> Pair (Inr ()))
                             (\<lambda>u. and_then (add_coins ctx amount (Some (member_id user)))
                                (\<lambda>u. reply ctx
                                   (emoji_transfer @ '' Transferred **'' @ str_int amount
                                      @ ''** coins to **'' @ member_name user @ ''**!'')
                                   False None))))) w)"

section \<open>Observations used in the statements\<close>

text \<open>
  The users table exists as \<^verbatim>\<open>on_ready\<close> creates it: the three columns, keyed by
  \<^verbatim>\<open>user_id\<close>.
\<close>

definition users_ready :: "world \<Rightarrow> bool" where
  "users_ready w =
     (case store w ''users'' of
        None \<Rightarrow> False
      | Some tb \<Rightarrow> t_columns tb = users_columns \<and> t_pkey tb = [''user_id''])"

text \<open>
  What a test reads back: the value of column \<open>c\<close> in the row that
  \<^verbatim>\<open>get("SELECT * FROM users WHERE user_id = ?", (uid,), one=True)\<close> returns, if there is one.
\<close>

definition user_column :: "world \<Rightarrow> int \<Rightarrow> string \<Rightarrow> sqlval option" where
  "user_column w uid c =
     (case fst (get_one select_user [SqlInt uid] w) of
        Inr (Some r) \<Rightarrow> map_of r c
      | _ \<Rightarrow> None)"

text \<open>
  The statements of \<^verbatim>\<open>on_keep_btn\<close> and of \<^verbatim>\<open>on_sell_one_btn\<close> that run before the
  deletion attempt, for the fish name taken from the custom id.
\<close>

definition keep_steps :: "bot_context \<Rightarrow> string \<Rightarrow> world \<Rightarrow> (error + unit) \<times> world" where
  "keep_steps ctx fish_name =
     and_then (add_to_inventory ctx fish_name)
       (\<lambda>u. and_then (increment_fish ctx)
          (\<lambda>u. reply ctx (emoji_kept @ '' Kept **'' @ fish_name @ ''** in your inventory.'')
                  True (Some 3)))"

definition sell_one_steps :: "bot_context \<Rightarrow> string \<Rightarrow> world \<Rightarrow> (error + unit) \<times> world" where
  "sell_one_steps ctx fish_name =
     and_then (add_coins ctx (get_fish_value fish_name) None)
       (\<lambda>u. and_then (increment_fish ctx)
          (\<lambda>u. reply ctx
                  (emoji_sold @ '' Sold **'' @ fish_name @ ''** for **''
                     @ str_int (get_fish_value fish_name) @ ''** coins!'')
                  True (Some 3)))"

section \<open>Counter updates issued by concurrent handlers\<close>

text \<open>
  \<^verbatim>\<open>increment_fish\<close> and \<^verbatim>\<open>add_coins\<close> contain no suspension point and issue one
  statement each, so an execution of several such calls made by concurrently running
  handlers is some sequence of the calls: an interleaving is an order of the list.
\<close>

datatype counter_op = IncrementFish bot_context | AddCoins bot_context int "int option"

fun run_op :: "counter_op \<Rightarrow> world \<Rightarrow> (error + unit) \<times> world" where
  "run_op (IncrementFish ctx) w = increment_fish ctx w"
| "run_op (AddCoins ctx amount user_id) w = add_coins ctx amount user_id w"

fun run_ops :: "counter_op list \<Rightarrow> world \<Rightarrow> world" where
  "run_ops [] w = w"
| "run_ops (x # xs) w = run_ops xs (snd (run_op x w))"

text \<open>
  Whether an operation issues the increment of \<^verbatim>\<open>fishes_caught\<close> for the user \<open>uid\<close>,
  and the amount an operation adds to the coins of \<open>uid\<close>: nothing when the amount does
  not fit in 64 bits, since the statement then fails at binding.
\<close>

fun increments_fish :: "int \<Rightarrow> counter_op \<Rightarrow> bool" where
  "increments_fish uid (IncrementFish ctx) = (db ctx \<and> sender_id (sender ctx) = uid)"
| "increments_fish uid (AddCoins ctx amount user_id) = False"

fun coins_added :: "int \<Rightarrow> counter_op \<Rightarrow> int" where
  "coins_added uid (IncrementFish ctx) = 0"
| "coins_added uid (AddCoins ctx amount user_id) =
     (if db ctx \<and> int64 amount
         \<and> uid = (case user_id of
                    None \<Rightarrow> sender_id (sender ctx)
                  | Some u \<Rightarrow> if u \<noteq> 0 then u else sender_id (sender ctx))
      then amount else 0)"

text \<open>
  The amounts added to the coins of \<open>uid\<close> with the negative ones left out, and with
  the positive ones left out: in whatever order the operations run, the balance stays
  between the start plus the second and the start plus the first.
\<close>

definition coins_up :: "int \<Rightarrow> counter_op list \<Rightarrow> int" where
  "coins_up uid ops = sum_list (map (\<lambda>x. max 0 (coins_added uid x)) ops)"

definition coins_down :: "int \<Rightarrow> counter_op list \<Rightarrow> int" where
  "coins_down uid ops = sum_list (map (\<lambda>x. min 0 (coins_added uid x)) ops)"

section \<open>The button registry and the dispatcher\<close>

text \<open>
  Modelled from the spec: the matching of a registration key against an incoming
  \<^verbatim>\<open>custom_id\<close> (\<^verbatim>\<open>spc/bot.py\<close> is not among the sources): key \<^verbatim>\<open>"keep"\<close> matches a
  \<^verbatim>\<open>custom_id\<close> equal to \<^verbatim>\<open>"keep"\<close> or beginning with \<^verbatim>\<open>"keep:"\<close>.
\<close>

definition key_matches :: "string \<Rightarrow> string \<Rightarrow> bool" where
  "key_matches key cid = (cid = key \<or> prefix (key @ '':'') cid)"

text \<open>
  Modelled from the spec: the decorator \<^verbatim>\<open>bot.onButton(key)\<close> of \<^verbatim>\<open>spc/bot.py\<close>, which is
  not among the sources: the registry is a mapping from key to handler, so a second
  registration under the same key replaces the first.
\<close>

definition onButton :: "string \<Rightarrow> 'h \<Rightarrow> (string \<times> 'h) list \<Rightarrow> (string \<times> 'h) list" where
  "onButton key h reg = filter (\<lambda>kh. fst kh \<noteq> key) reg @ [(key, h)]"

text \<open>
  Modelled from the spec: the registry lookup for a component interaction of
  \<^verbatim>\<open>spc/bot.py\<close>, which is not among the sources: among the registered keys that match
  the \<^verbatim>\<open>custom_id\<close> the longest wins; without a match there is no handler.
\<close>

fun resolve_button :: "(string \<times> 'h) list \<Rightarrow> string \<Rightarrow> (string \<times> 'h) option" where
  "resolve_button [] cid = None"
| "resolve_button (kh # reg) cid =
     (case resolve_button reg cid of
        None \<Rightarrow> if key_matches (fst kh) cid then Some kh else None
      | Some best \<Rightarrow>
          if key_matches (fst kh) cid \<and> length (fst best) < length (fst kh) then Some kh
          else Some best)"

text \<open>
  The dispatcher's state: the world, the keys of the handlers invoked so far, and the
  errors forwarded to the error hook.
\<close>

record dispatcher =
  world_of :: world
  invoked :: "string list"
  hook_log :: "error list"

text \<open>
  Modelled from the spec: the dispatch of one component interaction by \<^verbatim>\<open>spc/bot.py\<close>,
  which is not among the sources. On a miss nothing happens. On a hit a fresh Context is
  built from the event, the handler runs, and what it raises goes to the error hook, which
  logs and suppresses it.
\<close>

definition dispatch_component ::
  "(string \<times> (bot_context \<Rightarrow> world \<Rightarrow> (error + unit) \<times> world)) list \<Rightarrow> bool \<Rightarrow> sender
     \<Rightarrow> string \<Rightarrow> nat option \<Rightarrow> dispatcher \<Rightarrow> dispatcher" where
  "dispatch_component reg has_db who cid msg st =
     (case resolve_button reg cid of
        None \<Rightarrow> st
      | Some kh \<Rightarrow>
          (case snd kh \<lparr>sender = who, db = has_db, custom_id = Some cid, message = msg\<rparr> (world_of st) of
             (Inl e, w1) \<Rightarrow>
               st\<lparr>world_of := w1, invoked := invoked st @ [fst kh], hook_log := hook_log st @ [e]\<rparr>
           | (Inr u, w1) \<Rightarrow> st\<lparr>world_of := w1, invoked := invoked st @ [fst kh]\<rparr>))"

text \<open>
  The button handlers of the example, in the order their decorators run. The profile
  handler is registered but its body is not modelled.
\<close>

datatype handler_name =
  On_keep_btn | On_sell_one_btn | On_trash_btn | On_sell_all_btn | On_show_profile

definition example_buttons :: "(string \<times> handler_name) list" where
  "example_buttons =
     onButton ''show_profile'' On_show_profile
       (onButton ''sell_all'' On_sell_all_btn
          (onButton ''trash'' On_trash_btn
             (onButton ''sell_one'' On_sell_one_btn
                (onButton ''keep'' On_keep_btn []))))"

text \<open>
  The button registry with the handlers modelled above (the profile handler, whose body
  is not modelled, is left out).
\<close>

definition modelled_buttons ::
  "(string \<times> (bot_context \<Rightarrow> world \<Rightarrow> (error + unit) \<times> world)) list" where
  "modelled_buttons =
     onButton ''sell_all'' on_sell_all_btn
       (onButton ''trash'' on_trash_btn
          (onButton ''sell_one'' on_sell_one_btn
             (onButton ''keep'' on_keep_btn [])))"

section \<open>Concrete inputs\<close>

text \<open>A registry of three keys, each a strict prefix of the next.\<close>

definition nested_buttons :: "(string \<times> nat) list" where
  "nested_buttons =
     onButton ''shop:buy:rod'' 3 (onButton ''shop:buy'' 2 (onButton ''shop'' 1 []))"

definition example_sender :: sender where
  "example_sender = \<lparr>sender_id = 7, sender_name = ''ann'', avatar_url = None\<rparr>"

definition example_ctx :: "string option \<Rightarrow> bot_context" where
  "example_ctx cid = \<lparr>sender = example_sender, db = True, custom_id = cid, message = Some 1\<rparr>"

definition example_member :: member where
  "example_member = \<lparr>member_id = 8, member_name = ''bob''\<rparr>"

definition example_users :: table where
  "example_users =
     \<lparr>t_columns = users_columns, t_pkey = [''user_id''],
      t_rows = [[(''user_id'', SqlInt 7), (''coins'', SqlInt 30), (''fishes_caught'', SqlInt 2)],
                [(''user_id'', SqlInt 8), (''coins'', SqlInt 10), (''fishes_caught'', SqlInt 0)]]\<rparr>"

definition example_inventory :: table where
  "example_inventory =
     \<lparr>t_columns = inventory_columns, t_pkey = [''user_id'', ''fish_name''],
      t_rows = [[(''user_id'', SqlInt 7), (''fish_name'', SqlText ''Kraken''), (''count'', SqlInt 1)]]\<rparr>"

definition example_world :: world where
  "example_world =
     \<lparr>store = [''users'' \<mapsto> example_users, ''inventory'' \<mapsto> example_inventory],
      journal = [], outbox = [], live = [1], reply_fails = False\<rparr>"

section \<open>Effects of the statements on the users table\<close>

lemma map_of_set_one:
  "map_of (map (\<lambda>cv. (fst cv, if fst cv = c then v else snd cv)) r) k
      = (if k = c \<and> map_of r k \<noteq> None then Some v else map_of r k)"
  by (induction r) auto

lemma map_of_update_row:
  "map_of (update_row ps [(c, e)] conds r) k =
     (if row_matches ps conds r \<and> k = c \<and> map_of r k \<noteq> None then Some (eval_expr ps r e)
      else map_of r k)"
proof -
  have eq: "(\<lambda>cv. (fst cv, case map_of [(c, e)] (fst cv) of Some e \<Rightarrow> eval_expr ps r e | None \<Rightarrow> snd cv))
     = (\<lambda>cv. (fst cv, if fst cv = c then eval_expr ps r e else snd cv))"
    by (auto simp: fun_eq_iff)
  show ?thesis
    unfolding update_row_def eq by (auto simp: map_of_set_one)
qed

lemma sql_eq_int [simp]: "sql_eq v (SqlInt u) = (v = SqlInt u)"
  by (cases v) auto

lemma sql_eq_text [simp]: "sql_eq v (SqlText t) = (v = SqlText t)"
  by (cases v) auto

lemma sql_add_ints [simp]: "sql_add (SqlInt b) (SqlInt a) = int_or_real (b + a)"
  by (simp add: sql_add_def)

lemma select_user_matches [simp]:
  "row_matches [SqlInt uid] [(''user_id'', Param 0)] = (\<lambda>r. col_val r ''user_id'' = SqlInt uid)"
  by (auto simp: row_matches_def fun_eq_iff)

lemma where_user_matches [simp]:
  "row_matches [x, SqlInt uid] [(''user_id'', Param (Suc 0))] = (\<lambda>r. col_val r ''user_id'' = SqlInt uid)"
  by (auto simp: row_matches_def fun_eq_iff)

lemma project_all [simp]: "map (project None) rs = rs"
  by (induction rs) (auto simp: project_def)

lemma get_one_select_user:
  assumes "store w ''users'' = Some tb" "t_columns tb = users_columns" "int64 uid"
  shows "get_one select_user [SqlInt uid] w =
     (Inr (case filter (\<lambda>r. col_val r ''user_id'' = SqlInt uid) (t_rows tb) of [] \<Rightarrow> None | r # _ \<Rightarrow> Some r), w)"
  using assms
  by (simp add: get_one_def db_get_def select_user_def pairs_params_def pairs_cols_def known_cols_def
      users_columns_def bindable_def)

lemma user_column_unbindable: "\<not> int64 v \<Longrightarrow> user_column w v k = None"
  by (simp add: user_column_def get_one_def db_get_def select_user_def bindable_def
      split: option.splits)

lemma col_val_update_row:
  "k \<noteq> c \<Longrightarrow> col_val (update_row ps [(c, e)] conds r) k = col_val r k"
  by (simp add: col_val_def map_of_update_row)

lemma filter_user_update:
  assumes "c \<noteq> ''user_id''"
  shows "filter (\<lambda>r. col_val r ''user_id'' = SqlInt v) (map (update_row ps [(c, e)] conds) rs)
     = map (update_row ps [(c, e)] conds) (filter (\<lambda>r. col_val r ''user_id'' = SqlInt v) rs)"
  using assms by (induction rs) (auto simp: col_val_update_row)

lemma execute_update_add_coins:
  assumes "store w ''users'' = Some tb" "t_columns tb = users_columns" "t_pkey tb = [''user_id'']"
    and "int64 a" "int64 uid"
  shows "execute update_add_coins [SqlInt a, SqlInt uid] w =
     (Inr (), w\<lparr>store := (store w)(''users'' \<mapsto> tb\<lparr>t_rows :=
          map (update_row [SqlInt a, SqlInt uid] [(''coins'', Add (Col ''coins'') (Param 0))] [(''user_id'', Param 1)]) (t_rows tb)\<rparr>),
        journal := journal w @ [(update_add_coins, [SqlInt a, SqlInt uid])]\<rparr>)"
  using assms
  by (simp add: execute_def db_execute_def update_add_coins_def stmt_params_def pairs_params_def
      pairs_cols_def known_cols_def users_columns_def bindable_def)

lemma execute_update_increment_fish:
  assumes "store w ''users'' = Some tb" "t_columns tb = users_columns" "t_pkey tb = [''user_id'']"
    and "int64 uid"
  shows "execute update_increment_fish [SqlInt uid] w =
     (Inr (), w\<lparr>store := (store w)(''users'' \<mapsto> tb\<lparr>t_rows :=
          map (update_row [SqlInt uid] [(''fishes_caught'', Add (Col ''fishes_caught'') (Lit (SqlInt 1)))] [(''user_id'', Param 0)]) (t_rows tb)\<rparr>),
        journal := journal w @ [(update_increment_fish, [SqlInt uid])]\<rparr>)"
  using assms
  by (simp add: execute_def db_execute_def update_increment_fish_def stmt_params_def pairs_params_def
      pairs_cols_def known_cols_def users_columns_def bindable_def)

lemma user_column_rows:
  assumes "store w ''users'' = Some tb" "t_columns tb = users_columns" "int64 v"
  shows "user_column w v k =
     (case filter (\<lambda>r. col_val r ''user_id'' = SqlInt v) (t_rows tb) of [] \<Rightarrow> None | r # _ \<Rightarrow> map_of r k)"
  using assms by (simp add: user_column_def get_one_select_user split: list.splits)

lemma user_column_after_update:
  assumes tb: "store w ''users'' = Some tb" "t_columns tb = users_columns"
    and c: "c \<noteq> ''user_id''"
    and m: "row_matches ps conds = (\<lambda>r. col_val r ''user_id'' = SqlInt uid)"
    and ev: "\<And>r. eval_expr ps r e = sql_add (col_val r c) (SqlInt a)"
  shows "user_column (w\<lparr>store := (store w)(''users'' \<mapsto> tb\<lparr>t_rows := map (update_row ps [(c, e)] conds) (t_rows tb)\<rparr>), journal := j\<rparr>) v k
     = (if v = uid \<and> k = c then map_option (\<lambda>y. sql_add y (SqlInt a)) (user_column w v k)
        else user_column w v k)"
proof (cases "int64 v")
  case False
  then show ?thesis by (auto simp: user_column_unbindable)
next
  case True
  let ?w = "w\<lparr>store := (store w)(''users'' \<mapsto> tb\<lparr>t_rows := map (update_row ps [(c, e)] conds) (t_rows tb)\<rparr>), journal := j\<rparr>"
  let ?tb = "tb\<lparr>t_rows := map (update_row ps [(c, e)] conds) (t_rows tb)\<rparr>"
  have 1: "store ?w ''users'' = Some ?tb" "t_columns ?tb = users_columns"
    using tb by simp_all
  show ?thesis
  proof (cases "filter (\<lambda>r. col_val r ''user_id'' = SqlInt v) (t_rows tb)")
    case Nil
    then show ?thesis
      unfolding user_column_rows[OF 1 True] user_column_rows[OF tb True]
      using c by (auto simp: filter_user_update)
  next
    case (Cons r rs)
    then have "r \<in> set (filter (\<lambda>r. col_val r ''user_id'' = SqlInt v) (t_rows tb))" by simp
    then have rv: "col_val r ''user_id'' = SqlInt v" by simp
    have cv: "map_of r c = Some y \<Longrightarrow> col_val r c = y" for y
      by (simp add: col_val_def)
    have "map_of (update_row ps [(c, e)] conds r) k =
        (if v = uid \<and> k = c then map_option (\<lambda>y. sql_add y (SqlInt a)) (map_of r k) else map_of r k)"
      using rv by (auto simp: map_of_update_row m ev cv)
    then show ?thesis
      unfolding user_column_rows[OF 1 True] user_column_rows[OF tb True]
      using c Cons by (auto simp: filter_user_update)
  qed
qed

lemma users_readyE:
  assumes "users_ready w"
  obtains tb where "store w ''users'' = Some tb" "t_columns tb = users_columns" "t_pkey tb = [''user_id'']"
  using assms by (auto simp: users_ready_def split: option.splits)

lemma increment_fish_effect:
  assumes "db ctx" "users_ready w" "int64 (sender_id (sender ctx))"
  shows "fst (increment_fish ctx w) = Inr ()"
    and "users_ready (snd (increment_fish ctx w))"
    and "user_column (snd (increment_fish ctx w)) v k =
      (if v = sender_id (sender ctx) \<and> k = ''fishes_caught''
       then map_option (\<lambda>y. sql_add y (SqlInt 1)) (user_column w v k) else user_column w v k)"
    and "journal (snd (increment_fish ctx w)) = journal w @ [(update_increment_fish, [SqlInt (sender_id (sender ctx))])]"
    and "outbox (snd (increment_fish ctx w)) = outbox w"
    and "live (snd (increment_fish ctx w)) = live w"
    and "reply_fails (snd (increment_fish ctx w)) = reply_fails w"
    and "t \<noteq> ''users'' \<Longrightarrow> store (snd (increment_fish ctx w)) t = store w t"
proof -
  from assms(2) obtain tb where tb: "store w ''users'' = Some tb" "t_columns tb = users_columns" "t_pkey tb = [''user_id'']"
    by (rule users_readyE)
  note ex = execute_update_increment_fish[OF tb assms(3)]
  show "fst (increment_fish ctx w) = Inr ()"
    using assms(1) by (simp add: increment_fish_def ex)
  show "users_ready (snd (increment_fish ctx w))"
    using assms(1) tb by (simp add: increment_fish_def ex users_ready_def)
  show "user_column (snd (increment_fish ctx w)) v k =
      (if v = sender_id (sender ctx) \<and> k = ''fishes_caught''
       then map_option (\<lambda>y. sql_add y (SqlInt 1)) (user_column w v k) else user_column w v k)"
    using assms(1) by (simp add: increment_fish_def ex user_column_after_update[OF tb(1,2)])
  show "journal (snd (increment_fish ctx w)) = journal w @ [(update_increment_fish, [SqlInt (sender_id (sender ctx))])]"
    "outbox (snd (increment_fish ctx w)) = outbox w"
    "live (snd (increment_fish ctx w)) = live w"
    "reply_fails (snd (increment_fish ctx w)) = reply_fails w"
    "t \<noteq> ''users'' \<Longrightarrow> store (snd (increment_fish ctx w)) t = store w t"
    using assms(1) by (simp_all add: increment_fish_def ex)
qed

lemma add_coins_effect:
  fixes ctx uo
  defines "target \<equiv> (case uo of None \<Rightarrow> sender_id (sender ctx)
                | Some u \<Rightarrow> if u \<noteq> 0 then u else sender_id (sender ctx))"
  assumes "db ctx" "users_ready w" "int64 a" "int64 target"
  shows "fst (add_coins ctx a uo w) = Inr ()"
    and "users_ready (snd (add_coins ctx a uo w))"
    and "user_column (snd (add_coins ctx a uo w)) v k =
      (if v = target \<and> k = ''coins''
       then map_option (\<lambda>y. sql_add y (SqlInt a)) (user_column w v k) else user_column w v k)"
    and "journal (snd (add_coins ctx a uo w)) = journal w @ [(update_add_coins, [SqlInt a, SqlInt target])]"
    and "outbox (snd (add_coins ctx a uo w)) = outbox w"
    and "live (snd (add_coins ctx a uo w)) = live w"
    and "reply_fails (snd (add_coins ctx a uo w)) = reply_fails w"
    and "t \<noteq> ''users'' \<Longrightarrow> store (snd (add_coins ctx a uo w)) t = store w t"
proof -
  from assms(3) obtain tb where tb: "store w ''users'' = Some tb" "t_columns tb = users_columns" "t_pkey tb = [''user_id'']"
    by (rule users_readyE)
  note ex = execute_update_add_coins[OF tb assms(4,5)]
  have ac: "add_coins ctx a uo w = execute update_add_coins [SqlInt a, SqlInt target] w"
    using assms(2) by (simp add: add_coins_def Let_def target_def)
  show "fst (add_coins ctx a uo w) = Inr ()"
    by (simp add: ac ex)
  show "users_ready (snd (add_coins ctx a uo w))"
    using tb by (simp add: ac ex users_ready_def)
  show "user_column (snd (add_coins ctx a uo w)) v k =
      (if v = target \<and> k = ''coins''
       then map_option (\<lambda>y. sql_add y (SqlInt a)) (user_column w v k) else user_column w v k)"
    by (simp add: ac ex user_column_after_update[OF tb(1,2)])
  show "journal (snd (add_coins ctx a uo w)) = journal w @ [(update_add_coins, [SqlInt a, SqlInt target])]"
    "outbox (snd (add_coins ctx a uo w)) = outbox w"
    "live (snd (add_coins ctx a uo w)) = live w"
    "reply_fails (snd (add_coins ctx a uo w)) = reply_fails w"
    "t \<noteq> ''users'' \<Longrightarrow> store (snd (add_coins ctx a uo w)) t = store w t"
    by (simp_all add: ac ex)
qed

lemma get_fish_value_cases: "get_fish_value n \<in> {0, 5, 50, 500, 2000}"
  by (simp add: get_fish_value_def FISH_TYPES_def)

lemma int64_get_fish_value: "int64 (get_fish_value n)"
  using get_fish_value_cases[of n] by (auto simp: int64_def)

lemma split_colon_1_prefix:
  assumes "CHR '':'' \<notin> set p"
  shows "split_colon_1 (p @ CHR '':'' # rest) = [p, rest]"
  using assms by (simp add: split_colon_1_def takeWhile_append dropWhile_append)

lemma fish_value_in_unknown:
  "n \<notin> set (map name fs) \<Longrightarrow> fish_value_in fs n = 0"
  by (induction fs) auto

lemma and_then_unfold:
  "and_then m f w = (case fst (m w) of Inl e \<Rightarrow> (Inl e, snd (m w)) | Inr x \<Rightarrow> f x (snd (m w)))"
  by (cases "m w") (auto simp: and_then_def split: sum.splits)

lemma user_column_store:
  "store w' = store w \<Longrightarrow> user_column w' v k = user_column w v k"
  by (simp add: user_column_def get_one_def split: sum.splits get_result.splits)

lemma reply_then_delete:
  fixes ctx c h da
  defines "T \<equiv> and_then (reply ctx c h da) (\<lambda>u. try_pass (delete_message ctx))"
  shows "store (snd (T w)) = store w"
    and "journal (snd (T w)) = journal w"
    and "fst (T w) = (if reply_fails w then Inl PlatformError else Inr ())"
    and "outbox (snd (T w)) =
       (if reply_fails w then outbox w
        else outbox w @ [\<lparr>content = c, hidden = h, delete_after = da\<rparr>])"
  unfolding T_def
  by (auto simp: and_then_def reply_def try_pass_def delete_message_def split: option.splits)

lemma sell_one_effect:
  assumes cid: "custom_id ctx = Some (''sell_one:'' @ n)"
    and db: "db ctx" and ready: "users_ready w" and sid: "int64 (sender_id (sender ctx))"
  shows "user_column (snd (on_sell_one_btn ctx w)) v k =
      (if v = sender_id (sender ctx) \<and> k = ''coins''
       then map_option (\<lambda>y. sql_add y (SqlInt (get_fish_value n))) (user_column w v k)
       else if v = sender_id (sender ctx) \<and> k = ''fishes_caught''
       then map_option (\<lambda>y. sql_add y (SqlInt 1)) (user_column w v k)
       else user_column w v k)"
    and "journal (snd (on_sell_one_btn ctx w)) = journal w @
       [(update_add_coins, [SqlInt (get_fish_value n), SqlInt (sender_id (sender ctx))]),
        (update_increment_fish, [SqlInt (sender_id (sender ctx))])]"
    and "fst (on_sell_one_btn ctx w) = (if reply_fails w then Inl PlatformError else Inr ())"
proof -
  have sp: "split_colon_1 (''sell_one:'' @ n) = [''sell_one'', n]"
    using split_colon_1_prefix[of "''sell_one''" n] by simp
  let ?w1 = "snd (add_coins ctx (get_fish_value n) None w)"
  let ?w2 = "snd (increment_fish ctx ?w1)"
  let ?T = "and_then (reply ctx (emoji_sold @ '' Sold **'' @ n @ ''** for **'' @ str_int (get_fish_value n) @ ''** coins!'') True (Some 3))
      (\<lambda>u. try_pass (delete_message ctx))"
  have sid': "int64 (case None of None \<Rightarrow> sender_id (sender ctx)
                | Some u \<Rightarrow> if u \<noteq> 0 then u else sender_id (sender ctx))"
    using sid by simp
  note ac = add_coins_effect[OF db ready int64_get_fish_value sid', simplified]
  have r1: "users_ready ?w1" using ac(2) .
  note inc = increment_fish_effect[OF db r1 sid]
  have eq: "on_sell_one_btn ctx w = ?T ?w2"
    using cid sp ac(1) inc(1)
    by (simp add: on_sell_one_btn_def no_custom_id_def Let_def and_then_unfold[of "add_coins _ _ _"]
        and_then_unfold[of "increment_fish _"])
  show "user_column (snd (on_sell_one_btn ctx w)) v k =
      (if v = sender_id (sender ctx) \<and> k = ''coins''
       then map_option (\<lambda>y. sql_add y (SqlInt (get_fish_value n))) (user_column w v k)
       else if v = sender_id (sender ctx) \<and> k = ''fishes_caught''
       then map_option (\<lambda>y. sql_add y (SqlInt 1)) (user_column w v k)
       else user_column w v k)"
    unfolding eq
    by (simp add: user_column_store[OF reply_then_delete(1)] inc(3)
        ac(3))
  show "journal (snd (on_sell_one_btn ctx w)) = journal w @
       [(update_add_coins, [SqlInt (get_fish_value n), SqlInt (sender_id (sender ctx))]),
        (update_increment_fish, [SqlInt (sender_id (sender ctx))])]"
    unfolding eq
    by (simp add: reply_then_delete(2) inc(4) ac(4))
  show "fst (on_sell_one_btn ctx w) = (if reply_fails w then Inl PlatformError else Inr ())"
    unfolding eq
    by (simp add: reply_then_delete(3) inc(7) ac(7))
qed

lemma example_ready: "users_ready example_world"
  by (simp add: users_ready_def example_world_def example_users_def)

lemma example_columns:
  "user_column example_world 7 ''coins'' = Some (SqlInt 30)"
  "user_column example_world 7 ''fishes_caught'' = Some (SqlInt 2)"
  "user_column example_world 8 ''coins'' = Some (SqlInt 10)"
  by (simp_all add: user_column_def get_one_def db_get_def select_user_def example_world_def
      example_users_def users_columns_def known_cols_def pairs_cols_def pairs_params_def
      row_matches_def col_val_def project_def bindable_def int64_def)

section \<open>Selling one fish\<close>

text \<open>
  Claim C4. The handler \<^verbatim>\<open>on_sell_one_btn\<close> invoked with the custom id
  \<^verbatim>\<open>"sell_one:Golden Carp"\<close>, with a database attached and the sender's row present in
  the users table with \<open>B\<close> coins and \<open>F\<close> fish caught, where \<open>B + 50\<close> and
  \<open>F + 1\<close> fit in the 64-bit integers of the columns: the custom id is split at its
  first colon only (a later colon stays in the name), the name extracted is
  \<^verbatim>\<open>"Golden Carp"\<close>, whose configured value is 50; afterwards the sender's row holds
  \<open>B + 50\<close> coins and \<open>F + 1\<close> fish caught, every other user's row reads as before,
  exactly the two updates were issued, and the handler returns normally when the platform
  accepts the reply.
\<close>

theorem sell_one_golden_carp:
  assumes "custom_id ctx = Some ''sell_one:Golden Carp''" and "db ctx" and "users_ready w"
    and "user_column w (sender_id (sender ctx)) ''coins'' = Some (SqlInt B)"
    and "user_column w (sender_id (sender ctx)) ''fishes_caught'' = Some (SqlInt F)"
    and "int64 (B + 50)" and "int64 (F + 1)"
  shows "split_colon_1 ''sell_one:Golden Carp'' = [''sell_one'', ''Golden Carp'']
    \<and> split_colon_1 (''sell_one:Golden Carp'' @ CHR '':'' # rest)
        = [''sell_one'', ''Golden Carp'' @ CHR '':'' # rest]
    \<and> get_fish_value ''Golden Carp'' = 50
    \<and> user_column (snd (on_sell_one_btn ctx w)) (sender_id (sender ctx)) ''coins''
        = Some (SqlInt (B + 50))
    \<and> user_column (snd (on_sell_one_btn ctx w)) (sender_id (sender ctx)) ''fishes_caught''
        = Some (SqlInt (F + 1))
    \<and> (v \<noteq> sender_id (sender ctx)
         \<longrightarrow> user_column (snd (on_sell_one_btn ctx w)) v k = user_column w v k)
    \<and> journal (snd (on_sell_one_btn ctx w)) = journal w @
         [(update_add_coins, [SqlInt 50, SqlInt (sender_id (sender ctx))]),
          (update_increment_fish, [SqlInt (sender_id (sender ctx))])]
    \<and> (\<not> reply_fails w \<longrightarrow> fst (on_sell_one_btn ctx w) = Inr ())"
proof -
  have v: "get_fish_value ''Golden Carp'' = 50"
    by (simp add: get_fish_value_def FISH_TYPES_def)
  have c: "custom_id ctx = Some (''sell_one:'' @ ''Golden Carp'')"
    using assms(1) by simp
  have sid: "int64 (sender_id (sender ctx))"
    using assms(4) user_column_unbindable[of "sender_id (sender ctx)" w "''coins''"] by auto
  note eff = sell_one_effect[OF c assms(2,3) sid]
  have "split_colon_1 (''sell_one'' @ CHR '':'' # (''Golden Carp'' @ CHR '':'' # rest))
      = [''sell_one'', ''Golden Carp'' @ CHR '':'' # rest]"
    by (rule split_colon_1_prefix) simp
  then have s2: "split_colon_1 (''sell_one:Golden Carp'' @ CHR '':'' # rest)
      = [''sell_one'', ''Golden Carp'' @ CHR '':'' # rest]"
    by simp
  have s1: "split_colon_1 ''sell_one:Golden Carp'' = [''sell_one'', ''Golden Carp'']"
    by (simp add: split_colon_1_def)
  show ?thesis
    using s1 s2 v assms(4,5,6,7) by (simp add: eff int_or_real_def)
qed

theorem sell_one_golden_carp_witness:
  "user_column (snd (on_sell_one_btn (example_ctx (Some ''sell_one:Golden Carp'')) example_world))
       7 ''coins'' = Some (SqlInt 80)
   \<and> user_column (snd (on_sell_one_btn (example_ctx (Some ''sell_one:Golden Carp'')) example_world))
       7 ''fishes_caught'' = Some (SqlInt 3)
   \<and> user_column (snd (on_sell_one_btn (example_ctx (Some ''sell_one:Golden Carp'')) example_world))
       8 ''coins'' = Some (SqlInt 10)
   \<and> fst (on_sell_one_btn (example_ctx (Some ''sell_one:Golden Carp'')) example_world) = Inr ()"
  using sell_one_golden_carp[where ctx = "example_ctx (Some ''sell_one:Golden Carp'')"
      and w = example_world and B = 30 and F = 2 and v = 8 and k = "''coins''"]
    example_ready example_columns
  by (simp add: example_ctx_def example_sender_def example_world_def int64_def)

text \<open>
  Claim C9. A name that no entry of \<^verbatim>\<open>FISH_TYPES\<close> carries has value 0. So the handler
  \<^verbatim>\<open>on_sell_one_btn\<close> invoked with \<^verbatim>\<open>"sell_one:"\<close> followed by such a name, with a
  database attached and the sender's row present with \<open>B\<close> coins and \<open>F\<close> fish caught,
  where \<open>B\<close> and \<open>F + 1\<close> fit in the 64-bit integers of the columns, issues the coin
  update with amount 0, leaves the balance at \<open>B\<close> and still raises the fish counter to
  \<open>F + 1\<close>.
\<close>

theorem sell_one_unknown_fish:
  assumes "n \<notin> set (map name FISH_TYPES)"
  shows "get_fish_value n = 0
    \<and> (custom_id ctx = Some (''sell_one:'' @ n) \<and> db ctx \<and> users_ready w
       \<and> user_column w (sender_id (sender ctx)) ''coins'' = Some (SqlInt B)
       \<and> user_column w (sender_id (sender ctx)) ''fishes_caught'' = Some (SqlInt F)
       \<and> int64 B \<and> int64 (F + 1)
       \<longrightarrow> user_column (snd (on_sell_one_btn ctx w)) (sender_id (sender ctx)) ''coins''
             = Some (SqlInt B)
         \<and> user_column (snd (on_sell_one_btn ctx w)) (sender_id (sender ctx)) ''fishes_caught''
             = Some (SqlInt (F + 1))
         \<and> journal (snd (on_sell_one_btn ctx w)) = journal w @
             [(update_add_coins, [SqlInt 0, SqlInt (sender_id (sender ctx))]),
              (update_increment_fish, [SqlInt (sender_id (sender ctx))])])"
proof -
  have v: "get_fish_value n = 0"
    using assms by (simp add: get_fish_value_def fish_value_in_unknown)
  show ?thesis
  proof (intro conjI impI)
    assume h: "custom_id ctx = Some (''sell_one:'' @ n) \<and> db ctx \<and> users_ready w
       \<and> user_column w (sender_id (sender ctx)) ''coins'' = Some (SqlInt B)
       \<and> user_column w (sender_id (sender ctx)) ''fishes_caught'' = Some (SqlInt F)
       \<and> int64 B \<and> int64 (F + 1)"
    then have c: "custom_id ctx = Some (''sell_one:'' @ n)" and d: "db ctx" and r: "users_ready w"
      by simp_all
    have sid: "int64 (sender_id (sender ctx))"
      using h user_column_unbindable[of "sender_id (sender ctx)" w "''coins''"] by auto
    note eff = sell_one_effect[OF c d r sid]
    show "user_column (snd (on_sell_one_btn ctx w)) (sender_id (sender ctx)) ''coins''
        = Some (SqlInt B)"
      using h v by (simp add: eff int_or_real_def)
    show "user_column (snd (on_sell_one_btn ctx w)) (sender_id (sender ctx)) ''fishes_caught''
        = Some (SqlInt (F + 1))"
      using h by (simp add: eff int_or_real_def)
    show "journal (snd (on_sell_one_btn ctx w)) = journal w @
        [(update_add_coins, [SqlInt 0, SqlInt (sender_id (sender ctx))]),
         (update_increment_fish, [SqlInt (sender_id (sender ctx))])]"
      using v by (simp add: eff)
  qed (rule v)
qed

theorem sell_one_unknown_fish_witness:
  "get_fish_value ''Sea:Weed'' = 0
   \<and> user_column (snd (on_sell_one_btn (example_ctx (Some ''sell_one:Sea:Weed'')) example_world))
       7 ''coins'' = Some (SqlInt 30)
   \<and> user_column (snd (on_sell_one_btn (example_ctx (Some ''sell_one:Sea:Weed'')) example_world))
       7 ''fishes_caught'' = Some (SqlInt 3)"
  using sell_one_unknown_fish[where n = "''Sea:Weed''"
      and ctx = "example_ctx (Some ''sell_one:Sea:Weed'')" and w = example_world and B = 30 and F = 2]
    example_ready example_columns
  by (simp add: example_ctx_def example_sender_def FISH_TYPES_def int64_def)

section \<open>Transferring coins\<close>

lemma str_int_30: "str_int 30 = ''30''"
  by (simp add: str_int_def str_nat.simps[of 30] str_nat.simps[of 3])

lemma get_one_snd: "snd (get_one q ps w) = w"
  by (simp add: get_one_def split: sum.splits get_result.splits)

lemma get_user_existing:
  assumes "db ctx" and "fst (get_one select_user [SqlInt (sender_id (sender ctx))] w) = Inr (Some r)"
  shows "get_user ctx w = (Inr r, w)"
  using assms get_one_snd[of select_user "[SqlInt (sender_id (sender ctx))]" w]
  by (simp add: get_user_def and_then_unfold)

lemma transfer_coins_early:
  assumes "db ctx" and "fst (get_one select_user [SqlInt (sender_id (sender ctx))] w) = Inr (Some r)"
    and "dict_get r ''coins'' (SqlInt 0) = SqlInt c" and "c < amount \<or> amount \<le> 0"
  shows "transfer_coins ctx user amount w =
     reply ctx (if c < amount then ''Not enough coins! You only have '' @ str_int c @ ''.''
                else ''Invalid amount.'') False None w"
  using assms(1,3,4) get_user_existing[OF assms(1,2)]
  by (auto simp: transfer_coins_def and_then_unfold py_int_def)

lemma transfer_coins_no_write:
  assumes "db ctx" and "fst (get_one select_user [SqlInt (sender_id (sender ctx))] w) = Inr (Some r)"
    and "amount \<le> 0"
  shows "store (snd (transfer_coins ctx user amount w)) = store w"
    and "journal (snd (transfer_coins ctx user amount w)) = journal w"
  using assms(1,3) get_user_existing[OF assms(1,2)]
  by (auto simp: transfer_coins_def and_then_unfold py_int_def reply_def split: sqlval.splits)

lemma user_column_SomeD:
  assumes "user_column w uid c = Some x"
  obtains r where "fst (get_one select_user [SqlInt uid] w) = Inr (Some r)" "map_of r c = Some x"
  using assms by (auto simp: user_column_def split: sum.splits option.splits)

lemma example_row:
  "fst (get_one select_user [SqlInt 7] example_world)
     = Inr (Some [(''user_id'', SqlInt 7), (''coins'', SqlInt 30), (''fishes_caught'', SqlInt 2)])"
  by (simp add: get_one_def db_get_def select_user_def example_world_def
      example_users_def users_columns_def known_cols_def pairs_cols_def pairs_params_def
      row_matches_def col_val_def project_def bindable_def int64_def)

text \<open>
  Claim C5. The handler \<^verbatim>\<open>transfer_coins\<close> run with a database attached, the sender's
  balance 30 and the requested amount 50 performs no write: the database is the same
  afterwards (every row of every table) and no statement was issued. When the platform
  accepts the reply, the handler returns normally and has sent the insufficient-funds
  message.
\<close>

theorem transfer_insufficient_funds:
  assumes "db ctx" and "user_column w (sender_id (sender ctx)) ''coins'' = Some (SqlInt 30)"
  shows "store (snd (transfer_coins ctx user 50 w)) = store w
    \<and> journal (snd (transfer_coins ctx user 50 w)) = journal w
    \<and> (\<not> reply_fails w \<longrightarrow>
         fst (transfer_coins ctx user 50 w) = Inr ()
         \<and> outbox (snd (transfer_coins ctx user 50 w)) = outbox w @
             [\<lparr>content = ''Not enough coins! You only have 30.'', hidden = False,
               delete_after = None\<rparr>])"
proof -
  from assms(2) obtain r
    where r: "fst (get_one select_user [SqlInt (sender_id (sender ctx))] w) = Inr (Some r)"
      and c: "map_of r ''coins'' = Some (SqlInt 30)"
    by (rule user_column_SomeD)
  have d: "dict_get r ''coins'' (SqlInt 0) = SqlInt 30"
    using c by (simp add: dict_get_def)
  have "transfer_coins ctx user 50 w =
      reply ctx (''Not enough coins! You only have '' @ str_int 30 @ ''.'') False None w"
    using transfer_coins_early[OF assms(1) r d, of 50 user] by simp
  then show ?thesis
    by (simp add: reply_def str_int_30)
qed

theorem transfer_insufficient_funds_witness:
  "store (snd (transfer_coins (example_ctx None) example_member 50 example_world)) = store example_world
   \<and> journal (snd (transfer_coins (example_ctx None) example_member 50 example_world)) = []
   \<and> fst (transfer_coins (example_ctx None) example_member 50 example_world) = Inr ()
   \<and> outbox (snd (transfer_coins (example_ctx None) example_member 50 example_world)) =
       [\<lparr>content = ''Not enough coins! You only have 30.'', hidden = False, delete_after = None\<rparr>]"
  using transfer_insufficient_funds[where ctx = "example_ctx None" and w = example_world
      and user = example_member]
    example_columns(1)
  by (simp add: example_ctx_def example_sender_def example_world_def)

text \<open>
  Claim C10. The handler \<^verbatim>\<open>transfer_coins\<close> run with a database attached, the sender's
  row present in the users table and a requested amount of 0 or less performs no write:
  the database is the same afterwards and no statement was issued. With an integer balance
  \<open>c\<close> it returns early through a reply: the insufficient-funds message when \<open>c\<close> is
  below the amount, the invalid-amount message otherwise.
\<close>

theorem transfer_nonpositive_amount:
  assumes "db ctx"
    and "fst (get_one select_user [SqlInt (sender_id (sender ctx))] w) = Inr (Some r)"
    and "amount \<le> 0"
  shows "store (snd (transfer_coins ctx user amount w)) = store w
    \<and> journal (snd (transfer_coins ctx user amount w)) = journal w
    \<and> (dict_get r ''coins'' (SqlInt 0) = SqlInt c \<and> \<not> reply_fails w \<longrightarrow>
         fst (transfer_coins ctx user amount w) = Inr ()
         \<and> outbox (snd (transfer_coins ctx user amount w)) = outbox w @
             [\<lparr>content = (if c < amount then ''Not enough coins! You only have '' @ str_int c @ ''.''
                           else ''Invalid amount.''),
               hidden = False, delete_after = None\<rparr>])"
proof (intro conjI impI)
  show "store (snd (transfer_coins ctx user amount w)) = store w"
    by (rule transfer_coins_no_write(1)[OF assms])
  show "journal (snd (transfer_coins ctx user amount w)) = journal w"
    by (rule transfer_coins_no_write(2)[OF assms])
next
  assume h: "dict_get r ''coins'' (SqlInt 0) = SqlInt c \<and> \<not> reply_fails w"
  then have d: "dict_get r ''coins'' (SqlInt 0) = SqlInt c" and ok: "\<not> reply_fails w"
    by simp_all
  have eq: "transfer_coins ctx user amount w =
     reply ctx (if c < amount then ''Not enough coins! You only have '' @ str_int c @ ''.''
                else ''Invalid amount.'') False None w"
    using assms(3) by (intro transfer_coins_early[OF assms(1,2) d]) simp
  show "fst (transfer_coins ctx user amount w) = Inr ()"
    unfolding eq using ok by (simp add: reply_def)
  show "outbox (snd (transfer_coins ctx user amount w)) = outbox w @
             [\<lparr>content = (if c < amount then ''Not enough coins! You only have '' @ str_int c @ ''.''
                           else ''Invalid amount.''),
               hidden = False, delete_after = None\<rparr>]"
    unfolding eq using ok by (simp add: reply_def)
qed

theorem transfer_nonpositive_amount_witness:
  "store (snd (transfer_coins (example_ctx None) example_member (- 5) example_world)) = store example_world
   \<and> journal (snd (transfer_coins (example_ctx None) example_member (- 5) example_world)) = []
   \<and> fst (transfer_coins (example_ctx None) example_member (- 5) example_world) = Inr ()
   \<and> outbox (snd (transfer_coins (example_ctx None) example_member (- 5) example_world)) =
       [\<lparr>content = ''Invalid amount.'', hidden = False, delete_after = None\<rparr>]"
  using transfer_nonpositive_amount[where ctx = "example_ctx None" and w = example_world
      and user = example_member and amount = "- 5" and c = 30
      and r = "[(''user_id'', SqlInt 7), (''coins'', SqlInt 30), (''fishes_caught'', SqlInt 2)]"]
    example_row
  by (simp add: example_ctx_def example_sender_def example_world_def dict_get_def)

section \<open>Atomic counter updates\<close>

lemma execute_update_unbindable:
  "\<not> bindable ps \<Longrightarrow> store (snd (execute (Update t sets conds) ps w)) = store w"
  by (simp add: execute_def db_execute_def split: option.splits)

lemma users_ready_store: "store w' = store w \<Longrightarrow> users_ready w' = users_ready w"
  by (simp add: users_ready_def)

lemma increment_fish_unbindable:
  assumes "\<not> int64 (sender_id (sender ctx))"
  shows "store (snd (increment_fish ctx w)) = store w"
  using assms
  by (simp add: increment_fish_def update_increment_fish_def execute_update_unbindable bindable_def)

lemma add_coins_unbindable:
  assumes "\<not> (int64 a \<and> int64 (case uo of None \<Rightarrow> sender_id (sender ctx)
                | Some u \<Rightarrow> if u \<noteq> 0 then u else sender_id (sender ctx)))"
  shows "store (snd (add_coins ctx a uo w)) = store w"
  using assms
  by (auto simp: add_coins_def Let_def update_add_coins_def execute_update_unbindable bindable_def)

lemma increment_fish_no_db: "\<not> db ctx \<Longrightarrow> increment_fish ctx w = (Inr (), w)"
  by (simp add: increment_fish_def)

lemma add_coins_no_db: "\<not> db ctx \<Longrightarrow> add_coins ctx a uo w = (Inr (), w)"
  by (simp add: add_coins_def)

lemma increment_fish_skipped:
  assumes "\<not> (db ctx \<and> int64 (sender_id (sender ctx)))"
  shows "store (snd (increment_fish ctx w)) = store w"
proof (cases "db ctx")
  case True
  then have "\<not> int64 (sender_id (sender ctx))" using assms by simp
  then show ?thesis by (rule increment_fish_unbindable)
next
  case False
  then show ?thesis by (simp add: increment_fish_no_db)
qed

lemma add_coins_skipped:
  assumes "\<not> (db ctx \<and> int64 a \<and> int64 (case uo of None \<Rightarrow> sender_id (sender ctx)
                | Some u \<Rightarrow> if u \<noteq> 0 then u else sender_id (sender ctx)))"
  shows "store (snd (add_coins ctx a uo w)) = store w"
proof (cases "db ctx")
  case True
  then have "\<not> (int64 a \<and> int64 (case uo of None \<Rightarrow> sender_id (sender ctx)
                | Some u \<Rightarrow> if u \<noteq> 0 then u else sender_id (sender ctx)))"
    using assms by simp
  then show ?thesis by (rule add_coins_unbindable)
next
  case False
  then show ?thesis by (simp add: add_coins_no_db)
qed

lemma run_op_ready:
  assumes "users_ready w"
  shows "users_ready (snd (run_op x w))"
proof (cases x)
  case (IncrementFish ctx)
  show ?thesis
  proof (cases "db ctx \<and> int64 (sender_id (sender ctx))")
    case True
    then have d: "db ctx" and i: "int64 (sender_id (sender ctx))"
      by simp_all
    have "users_ready (snd (increment_fish ctx w))"
      by (rule increment_fish_effect(2)[OF d assms i])
    then show ?thesis
      unfolding IncrementFish by simp
  next
    case False
    then have "store (snd (increment_fish ctx w)) = store w"
      by (rule increment_fish_skipped)
    then have "users_ready (snd (increment_fish ctx w)) = users_ready w"
      by (rule users_ready_store)
    then have "users_ready (snd (increment_fish ctx w))"
      using assms by simp
    then show ?thesis
      unfolding IncrementFish by simp
  qed
next
  case (AddCoins ctx a uo)
  let ?t = "case uo of None \<Rightarrow> sender_id (sender ctx)
              | Some u \<Rightarrow> if u \<noteq> 0 then u else sender_id (sender ctx)"
  show ?thesis
  proof (cases "db ctx \<and> int64 a \<and> int64 ?t")
    case True
    then have d: "db ctx" and i: "int64 a" and t: "int64 ?t"
      by simp_all
    have "users_ready (snd (add_coins ctx a uo w))"
      by (rule add_coins_effect(2)[OF d assms i t])
    then show ?thesis
      unfolding AddCoins by simp
  next
    case False
    then have "store (snd (add_coins ctx a uo w)) = store w"
      by (rule add_coins_skipped)
    then have "users_ready (snd (add_coins ctx a uo w)) = users_ready w"
      by (rule users_ready_store)
    then have "users_ready (snd (add_coins ctx a uo w))"
      using assms by simp
    then show ?thesis
      unfolding AddCoins by simp
  qed
qed

lemma run_op_fish:
  assumes "users_ready w" and "user_column w uid ''fishes_caught'' = Some (SqlInt C)"
    and "int64 (C + (if increments_fish uid x then 1 else 0))"
  shows "user_column (snd (run_op x w)) uid ''fishes_caught''
     = Some (SqlInt (C + (if increments_fish uid x then 1 else 0)))"
proof -
  have uid: "int64 uid"
    using assms(2) user_column_unbindable[of uid w "''fishes_caught''"] by auto
  show ?thesis
  proof (cases x)
    case (IncrementFish ctx)
    show ?thesis
    proof (cases "db ctx \<and> int64 (sender_id (sender ctx))")
      case True
      then have d: "db ctx" and i: "int64 (sender_id (sender ctx))"
        by simp_all
      have e: "user_column (snd (increment_fish ctx w)) uid ''fishes_caught'' =
          (if uid = sender_id (sender ctx) \<and> ''fishes_caught'' = ''fishes_caught''
           then map_option (\<lambda>y. sql_add y (SqlInt 1)) (user_column w uid ''fishes_caught'')
           else user_column w uid ''fishes_caught'')"
        by (rule increment_fish_effect(3)[OF d assms(1) i])
      show ?thesis
        unfolding IncrementFish using assms(2,3) d
        by (auto simp: e int_or_real_def IncrementFish)
    next
      case False
      then have "store (snd (increment_fish ctx w)) = store w"
        by (rule increment_fish_skipped)
      then have same: "user_column (snd (increment_fish ctx w)) uid ''fishes_caught''
          = user_column w uid ''fishes_caught''"
        by (rule user_column_store)
      have "\<not> (db ctx \<and> sender_id (sender ctx) = uid)"
        using False uid by auto
      then show ?thesis
        unfolding IncrementFish using assms(2) by (simp add: same)
    qed
  next
    case (AddCoins ctx a uo)
    let ?t = "case uo of None \<Rightarrow> sender_id (sender ctx)
                | Some u \<Rightarrow> if u \<noteq> 0 then u else sender_id (sender ctx)"
    have same: "user_column (snd (add_coins ctx a uo w)) uid ''fishes_caught''
          = user_column w uid ''fishes_caught''"
    proof (cases "db ctx \<and> int64 a \<and> int64 ?t")
      case True
      then have d: "db ctx" and i: "int64 a" and t: "int64 ?t"
        by simp_all
      have "user_column (snd (add_coins ctx a uo w)) uid ''fishes_caught'' =
          (if uid = ?t \<and> ''fishes_caught'' = ''coins''
           then map_option (\<lambda>y. sql_add y (SqlInt a)) (user_column w uid ''fishes_caught'')
           else user_column w uid ''fishes_caught'')"
        by (rule add_coins_effect(3)[OF d assms(1) i t])
      then show ?thesis by simp
    next
      case False
      then have "store (snd (add_coins ctx a uo w)) = store w"
        by (rule add_coins_skipped)
      then show ?thesis
        by (rule user_column_store)
    qed
    show ?thesis
      unfolding AddCoins using assms(2) by (simp add: same)
  qed
qed

lemma run_op_coins:
  assumes "users_ready w" and "user_column w uid ''coins'' = Some (SqlInt K)"
    and "int64 (K + coins_added uid x)"
  shows "user_column (snd (run_op x w)) uid ''coins'' = Some (SqlInt (K + coins_added uid x))"
proof -
  have uid: "int64 uid"
    using assms(2) user_column_unbindable[of uid w "''coins''"] by auto
  show ?thesis
  proof (cases x)
    case (IncrementFish ctx)
    have same: "user_column (snd (increment_fish ctx w)) uid ''coins'' = user_column w uid ''coins''"
    proof (cases "db ctx \<and> int64 (sender_id (sender ctx))")
      case True
      then have d: "db ctx" and i: "int64 (sender_id (sender ctx))"
        by simp_all
      have "user_column (snd (increment_fish ctx w)) uid ''coins'' =
          (if uid = sender_id (sender ctx) \<and> ''coins'' = ''fishes_caught''
           then map_option (\<lambda>y. sql_add y (SqlInt 1)) (user_column w uid ''coins'')
           else user_column w uid ''coins'')"
        by (rule increment_fish_effect(3)[OF d assms(1) i])
      then show ?thesis by simp
    next
      case False
      then have "store (snd (increment_fish ctx w)) = store w"
        by (rule increment_fish_skipped)
      then show ?thesis
        by (rule user_column_store)
    qed
    show ?thesis
      unfolding IncrementFish using assms(2) by (simp add: same)
  next
    case (AddCoins ctx a uo)
    let ?t = "case uo of None \<Rightarrow> sender_id (sender ctx)
                | Some u \<Rightarrow> if u \<noteq> 0 then u else sender_id (sender ctx)"
    show ?thesis
    proof (cases "db ctx \<and> int64 a \<and> int64 ?t")
      case True
      then have d: "db ctx" and i: "int64 a" and t: "int64 ?t"
        by simp_all
      have e: "user_column (snd (add_coins ctx a uo w)) uid ''coins'' =
          (if uid = ?t \<and> ''coins'' = ''coins''
           then map_option (\<lambda>y. sql_add y (SqlInt a)) (user_column w uid ''coins'')
           else user_column w uid ''coins'')"
        by (rule add_coins_effect(3)[OF d assms(1) i t])
      have k: "int64 (K + coins_added uid (AddCoins ctx a uo))"
        using assms(3) unfolding AddCoins .
      show ?thesis
        unfolding AddCoins using assms(2) d i k
        by (auto simp: e int_or_real_def)
    next
      case False
      then have "store (snd (add_coins ctx a uo w)) = store w"
        by (rule add_coins_skipped)
      then have same: "user_column (snd (add_coins ctx a uo w)) uid ''coins''
          = user_column w uid ''coins''"
        by (rule user_column_store)
      have "coins_added uid (AddCoins ctx a uo) = 0"
        using False uid by auto
      then show ?thesis
        unfolding AddCoins using assms(2) by (simp add: same)
    qed
  qed
qed

lemma sum_list_min_nonpos: "sum_list (map (\<lambda>x. min 0 (f x)) xs) \<le> (0::int)"
  by (induction xs) auto

lemma sum_list_max_nonneg: "(0::int) \<le> sum_list (map (\<lambda>x. max 0 (f x)) xs)"
  by (induction xs) auto

lemma run_ops_column:
  assumes step: "\<And>w k x. users_ready w \<Longrightarrow> user_column w uid c = Some (SqlInt k)
      \<Longrightarrow> int64 (k + f x) \<Longrightarrow> user_column (snd (run_op x w)) uid c = Some (SqlInt (k + f x))"
    and "users_ready w" and "user_column w uid c = Some (SqlInt k)"
    and "int64 (k + sum_list (map (\<lambda>x. min 0 (f x)) ops))"
    and "int64 (k + sum_list (map (\<lambda>x. max 0 (f x)) ops))"
  shows "user_column (run_ops ops w) uid c = Some (SqlInt (k + sum_list (map f ops)))"
  using assms(2-)
proof (induction ops arbitrary: w k)
  case Nil
  then show ?case by simp
next
  case (Cons x xs)
  have lo: "sum_list (map (\<lambda>x. min 0 (f x)) xs) \<le> 0"
    by (rule sum_list_min_nonpos)
  have hi: "0 \<le> sum_list (map (\<lambda>x. max 0 (f x)) xs)"
    by (rule sum_list_max_nonneg)
  have now: "int64 (k + f x)"
    using Cons.prems(3,4) lo hi by (auto simp: int64_def)
  have col: "user_column (snd (run_op x w)) uid c = Some (SqlInt (k + f x))"
    by (rule step[OF Cons.prems(1,2) now])
  have b1: "int64 (k + f x + sum_list (map (\<lambda>x. min 0 (f x)) xs))"
    using Cons.prems(3,4) lo hi by (auto simp: int64_def)
  have b2: "int64 (k + f x + sum_list (map (\<lambda>x. max 0 (f x)) xs))"
    using Cons.prems(3,4) lo hi by (auto simp: int64_def)
  have "user_column (run_ops xs (snd (run_op x w))) uid c
      = Some (SqlInt (k + f x + sum_list (map f xs)))"
    by (rule Cons.IH[OF run_op_ready[OF Cons.prems(1)] col b1 b2])
  then show ?case by (simp add: add.assoc)
qed

lemma fish_bounds:
  "sum_list (map (\<lambda>x. min 0 (if increments_fish uid x then 1 else (0::int))) ops) = 0"
  "sum_list (map (\<lambda>x. max 0 (if increments_fish uid x then 1 else (0::int))) ops)
     = int (length (filter (increments_fish uid) ops))"
  "sum_list (map (\<lambda>x. if increments_fish uid x then 1 else (0::int)) ops)
     = int (length (filter (increments_fish uid) ops))"
  by (induction ops) auto

lemma run_ops_fish:
  assumes "users_ready w" and "user_column w uid ''fishes_caught'' = Some (SqlInt C)"
    and "int64 C" and "int64 (C + int (length (filter (increments_fish uid) ops)))"
  shows "user_column (run_ops ops w) uid ''fishes_caught''
     = Some (SqlInt (C + int (length (filter (increments_fish uid) ops))))"
  using run_ops_column[where f = "\<lambda>x. if increments_fish uid x then 1 else 0" and ops = ops,
      OF run_op_fish assms(1,2)] assms(3,4)
  by (simp add: fish_bounds)

lemma run_ops_coins:
  assumes "users_ready w" and "user_column w uid ''coins'' = Some (SqlInt K)"
    and "int64 (K + coins_down uid ops)" and "int64 (K + coins_up uid ops)"
  shows "user_column (run_ops ops w) uid ''coins''
     = Some (SqlInt (K + sum_list (map (coins_added uid) ops)))"
  using run_ops_column[where f = "coins_added uid" and ops = ops, OF run_op_coins assms(1,2)]
    assms(3,4)
  by (simp add: coins_up_def coins_down_def)

lemma count_increments_mset:
  assumes "mset ops' = mset ops"
  shows "length (filter P ops') = length (filter P ops)"
proof -
  have "size (filter_mset P (mset ops')) = size (filter_mset P (mset ops))"
    using assms by simp
  then show ?thesis by (simp only: mset_filter[symmetric] size_mset)
qed

lemma sum_added_mset:
  assumes "mset ops' = mset ops"
  shows "sum_list (map f ops') = (sum_list (map f ops) :: int)"
proof -
  have "sum_mset (image_mset f (mset ops')) = sum_mset (image_mset f (mset ops))"
    using assms by simp
  then show ?thesis by (simp only: mset_map[symmetric] sum_mset_sum_list)
qed

text \<open>
  Claim C2. Let the users table be ready and the row of user \<open>uid\<close> hold \<open>C\<close> fish
  caught and \<open>K\<close> coins. Let \<open>ops\<close> be calls of \<^verbatim>\<open>increment_fish\<close> and
  \<^verbatim>\<open>add_coins\<close>, by any senders, each issuing its single UPDATE statement, and let
  \<open>ops'\<close> be any order in which the statements reach the database. Let the counters stay
  within the 64-bit integers of the columns: \<open>C\<close> and \<open>C\<close> plus the number of
  increments issued for \<open>uid\<close> fit, and so does \<open>K\<close> plus the amounts added for
  \<open>uid\<close>, taking the positive ones alone and the negative ones alone. Afterwards the
  fish counter of \<open>uid\<close> is \<open>C\<close> plus the number of increments issued for \<open>uid\<close> and
  the balance is \<open>K\<close> plus the amounts added for \<open>uid\<close>: no update is lost, and every
  order gives the same row.
\<close>

theorem increments_never_lost:
  assumes "users_ready w"
    and "user_column w uid ''fishes_caught'' = Some (SqlInt C)"
    and "user_column w uid ''coins'' = Some (SqlInt K)"
    and "mset ops' = mset ops"
    and "int64 C" and "int64 (C + int (length (filter (increments_fish uid) ops)))"
    and "int64 (K + coins_down uid ops)" and "int64 (K + coins_up uid ops)"
  shows "user_column (run_ops ops' w) uid ''fishes_caught''
       = Some (SqlInt (C + int (length (filter (increments_fish uid) ops))))
    \<and> user_column (run_ops ops' w) uid ''coins''
       = Some (SqlInt (K + sum_list (map (coins_added uid) ops)))
    \<and> user_column (run_ops ops' w) uid ''fishes_caught''
       = user_column (run_ops ops w) uid ''fishes_caught''
    \<and> user_column (run_ops ops' w) uid ''coins'' = user_column (run_ops ops w) uid ''coins''"
proof -
  have n: "length (filter (increments_fish uid) ops') = length (filter (increments_fish uid) ops)"
    by (rule count_increments_mset[OF assms(4)])
  have s: "sum_list (map (coins_added uid) ops') = sum_list (map (coins_added uid) ops)"
    by (rule sum_added_mset[OF assms(4)])
  have d: "coins_down uid ops' = coins_down uid ops"
    unfolding coins_down_def by (rule sum_added_mset[OF assms(4)])
  have u: "coins_up uid ops' = coins_up uid ops"
    unfolding coins_up_def by (rule sum_added_mset[OF assms(4)])
  have f': "user_column (run_ops ops' w) uid ''fishes_caught''
      = Some (SqlInt (C + int (length (filter (increments_fish uid) ops))))"
    using run_ops_fish[OF assms(1,2,5), of ops'] assms(6) n by simp
  have f: "user_column (run_ops ops w) uid ''fishes_caught''
      = Some (SqlInt (C + int (length (filter (increments_fish uid) ops))))"
    by (rule run_ops_fish[OF assms(1,2,5,6)])
  have c': "user_column (run_ops ops' w) uid ''coins''
      = Some (SqlInt (K + sum_list (map (coins_added uid) ops)))"
    using run_ops_coins[OF assms(1,3), of ops'] assms(7,8) d u s by simp
  have c: "user_column (run_ops ops w) uid ''coins''
      = Some (SqlInt (K + sum_list (map (coins_added uid) ops)))"
    by (rule run_ops_coins[OF assms(1,3,7,8)])
  show ?thesis
    using f' f c' c by simp
qed

theorem increments_never_lost_witness:
  "user_column
     (run_ops [IncrementFish (example_ctx None), AddCoins (example_ctx None) 5 None,
               IncrementFish (example_ctx None), IncrementFish (example_ctx (Some ''keep:Kraken''))]
        example_world) 7 ''fishes_caught'' = Some (SqlInt 5)
   \<and> user_column
     (run_ops [IncrementFish (example_ctx None), AddCoins (example_ctx None) 5 None,
               IncrementFish (example_ctx None), IncrementFish (example_ctx (Some ''keep:Kraken''))]
        example_world) 7 ''coins'' = Some (SqlInt 35)"
  using increments_never_lost[where w = example_world and uid = 7 and C = 2 and K = 30
      and ops' = "[IncrementFish (example_ctx None), AddCoins (example_ctx None) 5 None,
               IncrementFish (example_ctx None), IncrementFish (example_ctx (Some ''keep:Kraken''))]"
      and ops = "[AddCoins (example_ctx None) 5 None, IncrementFish (example_ctx (Some ''keep:Kraken'')),
               IncrementFish (example_ctx None), IncrementFish (example_ctx None)]"]
    example_ready example_columns(1,2)
  by (simp add: example_ctx_def example_sender_def coins_up_def coins_down_def int64_def)

section \<open>At the limits of the 64-bit integers\<close>

text \<open>
  What the engine does outside the range the theorems above assume: a sum that leaves
  the 64-bit integers is stored as a floating-point value, so an increment at the largest
  integer is not exact, and an amount that does not fit cannot be bound, so the statement
  fails and changes nothing.
\<close>

lemmas numeric_defs = sql_add_def sql_sub_def text_numeric_def Let_def is_space_def is_digit_def
  digit_value_def digits_value_def real_follows_def exponent_follows_def int_or_real_def int64_def

lemma sql_add_examples:
  "sql_add (SqlInt 30) (SqlInt 50) = SqlInt 80"
  "sql_add (SqlInt 9223372036854775807) (SqlInt 1) = SqlReal"
  "sql_sub (SqlInt (- 9223372036854775808)) (SqlInt 1) = SqlReal"
  "sql_add SqlNull (SqlInt 1) = SqlNull"
  "sql_add SqlReal (SqlInt 1) = SqlReal"
  "sql_add (SqlText ''abc'') (SqlInt 50) = SqlInt 50"
  "sql_add (SqlText ''12abc'') (SqlInt 1) = SqlInt 13"
  "sql_add (SqlText '' -7'') (SqlInt 1) = SqlInt (- 6)"
  "sql_add (SqlText ''1e'') (SqlInt 1) = SqlInt 2"
  "sql_add (SqlText ''1.5'') (SqlInt 1) = SqlReal"
  "sql_add (SqlText ''1e3'') (SqlInt 1) = SqlReal"
  "sql_add (SqlText ''9223372036854775808'') (SqlInt 0) = SqlReal"
  by (simp_all add: numeric_defs)

lemma increment_fish_at_limit:
  assumes "db ctx" and "users_ready w"
    and "user_column w (sender_id (sender ctx)) ''fishes_caught'' = Some (SqlInt 9223372036854775807)"
  shows "user_column (snd (increment_fish ctx w)) (sender_id (sender ctx)) ''fishes_caught''
     = Some SqlReal"
proof -
  have sid: "int64 (sender_id (sender ctx))"
    using assms(3) user_column_unbindable[of "sender_id (sender ctx)" w "''fishes_caught''"] by auto
  show ?thesis
    using assms(3) by (simp add: increment_fish_effect(3)[OF assms(1,2) sid] int_or_real_def int64_def)
qed

lemma add_coins_amount_too_large:
  assumes "db ctx" and "users_ready w" and "\<not> int64 amount"
  shows "fst (add_coins ctx amount user_id w) = Inl OverflowError"
    and "store (snd (add_coins ctx amount user_id w)) = store w"
proof -
  from assms(2) obtain tb where tb: "store w ''users'' = Some tb" "t_columns tb = users_columns"
      "t_pkey tb = [''user_id'']"
    by (rule users_readyE)
  show "fst (add_coins ctx amount user_id w) = Inl OverflowError"
    using assms(1,3) tb
    by (simp add: add_coins_def Let_def execute_def db_execute_def update_add_coins_def
        stmt_params_def pairs_params_def pairs_cols_def known_cols_def users_columns_def bindable_def)
  show "store (snd (add_coins ctx amount user_id w)) = store w"
    using assms(3) by (intro add_coins_unbindable) simp
qed

section \<open>Best-effort deletion\<close>

lemma and_then_assoc:
  "and_then (and_then m f) g = and_then m (\<lambda>x. and_then (f x) g)"
  by (rule ext) (simp add: and_then_def split: prod.splits sum.splits)

lemma live_and_then:
  assumes "\<And>w. live (snd (m w)) = live w" and "\<And>x w. live (snd (f x w)) = live w"
  shows "live (snd (and_then m f w)) = live w"
  by (simp add: and_then_unfold assms split: sum.splits)

lemma live_execute: "live (snd (execute s ps w)) = live w"
  by (simp add: execute_def split: sum.splits)

lemma live_get_one: "live (snd (get_one q ps w)) = live w"
  by (simp add: get_one_snd)

lemma live_reply: "live (snd (reply ctx c h da w)) = live w"
  by (simp add: reply_def)

lemma live_get_user: "live (snd (get_user ctx w)) = live w"
  unfolding get_user_def
  by (auto intro!: live_and_then simp: live_execute live_get_one split: option.splits)

lemma live_increment_fish: "live (snd (increment_fish ctx w)) = live w"
  by (simp add: increment_fish_def live_execute)

lemma live_add_coins: "live (snd (add_coins ctx a uo w)) = live w"
  by (simp add: add_coins_def Let_def live_execute)

lemma live_add_to_inventory: "live (snd (add_to_inventory ctx n w)) = live w"
  unfolding add_to_inventory_def
  by (auto intro!: live_and_then simp: live_execute live_get_one live_get_user split: option.splits)

lemma live_keep_steps: "live (snd (keep_steps ctx n w)) = live w"
  unfolding keep_steps_def
  by (intro live_and_then live_add_to_inventory live_increment_fish live_reply)

lemma live_sell_one_steps: "live (snd (sell_one_steps ctx n w)) = live w"
  unfolding sell_one_steps_def
  by (intro live_and_then live_add_coins live_increment_fish live_reply)

lemma on_keep_btn_steps:
  assumes "custom_id ctx = Some (p @ CHR '':'' # n)" and "CHR '':'' \<notin> set p"
  shows "on_keep_btn ctx w = and_then (keep_steps ctx n) (\<lambda>u. try_pass (delete_message ctx)) w"
  using assms
  by (simp add: on_keep_btn_def no_custom_id_def split_colon_1_prefix keep_steps_def and_then_assoc)

lemma on_sell_one_btn_steps:
  assumes "custom_id ctx = Some (p @ CHR '':'' # n)" and "CHR '':'' \<notin> set p"
  shows "on_sell_one_btn ctx w = and_then (sell_one_steps ctx n) (\<lambda>u. try_pass (delete_message ctx)) w"
  using assms
  by (simp add: on_sell_one_btn_def no_custom_id_def split_colon_1_prefix sell_one_steps_def
      and_then_assoc Let_def)

lemma delete_message_gone:
  assumes "message ctx = Some m" and "m \<notin> set (live w)"
  shows "delete_message ctx w = (Inl PlatformError, w)"
  using assms by (simp add: delete_message_def)

lemma steps_then_failed_delete:
  assumes "message ctx = Some m" and "m \<notin> set (live w)"
    and "\<And>w. live (snd (steps w)) = live w" and "fst (steps w) = Inr ()"
  shows "and_then steps (\<lambda>u. try_pass (delete_message ctx)) w = (Inr (), snd (steps w))"
proof -
  have "m \<notin> set (live (snd (steps w)))"
    using assms(2,3) by simp
  then have "delete_message ctx (snd (steps w)) = (Inl PlatformError, snd (steps w))"
    using assms(1) by (rule delete_message_gone[rotated])
  then show ?thesis
    using assms(4) by (simp add: and_then_unfold try_pass_def)
qed

lemmas engine_defs = execute_def get_one_def db_get_def db_execute_def stmt_params_def
  pairs_params_def pairs_cols_def known_cols_def row_matches_def col_val_def bindable_def int64_def
  project_def update_row_def key_of_def new_row_def

lemma example_keep_steps:
  "fst (keep_steps (example_ctx (Some ''keep:Kraken'')) ''Kraken'' (example_world\<lparr>live := []\<rparr>)) = Inr ()"
  by (simp add: keep_steps_def add_to_inventory_def get_user_def increment_fish_def reply_def
      and_then_def example_ctx_def example_sender_def example_world_def example_users_def
      example_inventory_def users_columns_def inventory_columns_def select_user_def
      select_inventory_count_def update_inventory_count_def update_increment_fish_def engine_defs)

lemma example_sell_one_steps:
  "fst (sell_one_steps (example_ctx (Some ''sell_one:Kraken'')) ''Kraken'' (example_world\<lparr>live := []\<rparr>)) = Inr ()"
  by (simp add: sell_one_steps_def add_coins_def increment_fish_def reply_def
      and_then_def example_ctx_def example_sender_def example_world_def example_users_def
      example_inventory_def users_columns_def inventory_columns_def
      update_add_coins_def update_increment_fish_def get_fish_value_def FISH_TYPES_def
      engine_defs)

text \<open>
  Claim C8. Let the message of the event be gone from the platform already. Then the
  platform's delete call fails with a \<open>PlatformError\<close>, and the call site
  \<^verbatim>\<open>try: await ctx.message.delete() except: pass\<close> returns normally without touching the
  world. In \<^verbatim>\<open>on_keep_btn\<close> and in \<^verbatim>\<open>on_sell_one_btn\<close>, once the statements before the
  deletion attempt have completed, the handler completes normally, in the world those
  statements left; \<^verbatim>\<open>on_trash_btn\<close> always completes normally.
\<close>

theorem deletion_failure_ignored:
  assumes "message ctx = Some m" and "m \<notin> set (live w)"
  shows "delete_message ctx w = (Inl PlatformError, w)
    \<and> try_pass (delete_message ctx) w = (Inr (), w)
    \<and> (custom_id ctx = Some (p @ CHR '':'' # n) \<and> CHR '':'' \<notin> set p
         \<and> fst (keep_steps ctx n w) = Inr ()
       \<longrightarrow> on_keep_btn ctx w = (Inr (), snd (keep_steps ctx n w)))
    \<and> (custom_id ctx = Some (p @ CHR '':'' # n) \<and> CHR '':'' \<notin> set p
         \<and> fst (sell_one_steps ctx n w) = Inr ()
       \<longrightarrow> on_sell_one_btn ctx w = (Inr (), snd (sell_one_steps ctx n w)))
    \<and> fst (on_trash_btn ctx w) = Inr ()"
proof (intro conjI impI)
  show d: "delete_message ctx w = (Inl PlatformError, w)"
    by (rule delete_message_gone[OF assms])
  show "try_pass (delete_message ctx) w = (Inr (), w)"
    by (simp add: try_pass_def d)
  show "fst (on_trash_btn ctx w) = Inr ()"
    by (simp add: on_trash_btn_def try_pass_def split: prod.splits)
next
  assume h: "custom_id ctx = Some (p @ CHR '':'' # n) \<and> CHR '':'' \<notin> set p
         \<and> fst (keep_steps ctx n w) = Inr ()"
  then have c: "custom_id ctx = Some (p @ CHR '':'' # n)" and np: "CHR '':'' \<notin> set p"
    and ok: "fst (keep_steps ctx n w) = Inr ()"
    by simp_all
  have "on_keep_btn ctx w = and_then (keep_steps ctx n) (\<lambda>u. try_pass (delete_message ctx)) w"
    by (rule on_keep_btn_steps[OF c np])
  also have "\<dots> = (Inr (), snd (keep_steps ctx n w))"
    by (rule steps_then_failed_delete[OF assms live_keep_steps ok])
  finally show "on_keep_btn ctx w = (Inr (), snd (keep_steps ctx n w))" .
next
  assume h: "custom_id ctx = Some (p @ CHR '':'' # n) \<and> CHR '':'' \<notin> set p
         \<and> fst (sell_one_steps ctx n w) = Inr ()"
  then have c: "custom_id ctx = Some (p @ CHR '':'' # n)" and np: "CHR '':'' \<notin> set p"
    and ok: "fst (sell_one_steps ctx n w) = Inr ()"
    by simp_all
  have "on_sell_one_btn ctx w = and_then (sell_one_steps ctx n) (\<lambda>u. try_pass (delete_message ctx)) w"
    by (rule on_sell_one_btn_steps[OF c np])
  also have "\<dots> = (Inr (), snd (sell_one_steps ctx n w))"
    by (rule steps_then_failed_delete[OF assms live_sell_one_steps ok])
  finally show "on_sell_one_btn ctx w = (Inr (), snd (sell_one_steps ctx n w))" .
qed

theorem deletion_failure_ignored_witness:
  "fst (delete_message (example_ctx (Some ''keep:Kraken'')) (example_world\<lparr>live := []\<rparr>))
     = Inl PlatformError
   \<and> fst (on_keep_btn (example_ctx (Some ''keep:Kraken'')) (example_world\<lparr>live := []\<rparr>)) = Inr ()
   \<and> fst (on_sell_one_btn (example_ctx (Some ''sell_one:Kraken'')) (example_world\<lparr>live := []\<rparr>))
     = Inr ()"
  using deletion_failure_ignored[where ctx = "example_ctx (Some ''keep:Kraken'')"
      and w = "example_world\<lparr>live := []\<rparr>" and m = 1 and p = "''keep''" and n = "''Kraken''"]
    deletion_failure_ignored[where ctx = "example_ctx (Some ''sell_one:Kraken'')"
      and w = "example_world\<lparr>live := []\<rparr>" and m = 1 and p = "''sell_one''" and n = "''Kraken''"]
    example_keep_steps example_sell_one_steps
  by (simp add: example_ctx_def)

section \<open>The button registry\<close>

lemma key_matches_prefix: "key_matches k cid \<Longrightarrow> prefix k cid"
  by (auto simp: key_matches_def prefix_def)

lemma key_matches_same_length:
  assumes "key_matches k1 cid" and "key_matches k2 cid" and "length k1 = length k2"
  shows "k1 = k2"
proof -
  from assms(1) obtain r1 where "cid = k1 @ r1"
    by (auto dest!: key_matches_prefix simp: prefix_def)
  moreover from assms(2) obtain r2 where "cid = k2 @ r2"
    by (auto dest!: key_matches_prefix simp: prefix_def)
  ultimately have "k1 @ r1 = k2 @ r2" by simp
  then show ?thesis using assms(3) by simp
qed

lemma resolve_button_Some:
  "resolve_button reg cid = Some kh \<Longrightarrow> kh \<in> set reg \<and> key_matches (fst kh) cid"
  by (induction reg arbitrary: kh) (auto split: option.splits if_splits)

lemma resolve_button_None:
  "resolve_button reg cid = None \<longleftrightarrow> (\<forall>kh\<in>set reg. \<not> key_matches (fst kh) cid)"
  by (induction reg) (auto split: option.splits if_splits)

lemma resolve_button_longest:
  "resolve_button reg cid = Some best \<Longrightarrow> kh \<in> set reg \<Longrightarrow> key_matches (fst kh) cid
     \<Longrightarrow> length (fst kh) \<le> length (fst best)"
proof (induction reg arbitrary: best)
  case Nil
  then show ?case by simp
next
  case (Cons a reg)
  show ?case
  proof (cases "resolve_button reg cid")
    case None
    then have "\<forall>kh\<in>set reg. \<not> key_matches (fst kh) cid"
      by (simp add: resolve_button_None)
    then show ?thesis
      using Cons.prems None by (auto split: if_splits)
  next
    case (Some b)
    show ?thesis
    proof (cases "kh = a")
      case True
      then show ?thesis
        using Cons.prems Some by (auto split: if_splits)
    next
      case False
      then have "kh \<in> set reg" using Cons.prems(2) by simp
      then have "length (fst kh) \<le> length (fst b)"
        using Cons.IH[OF Some _ Cons.prems(3)] by simp
      then show ?thesis
        using Cons.prems(1) Some by (auto split: if_splits)
    qed
  qed
qed

lemma distinct_onButton:
  "distinct (map fst reg) \<Longrightarrow> distinct (map fst (onButton k h reg))"
  by (auto simp: onButton_def distinct_map_filter)

lemma nested_buttons_eq:
  "nested_buttons = [(''shop'', 1), (''shop:buy'', 2), (''shop:buy:rod'', 3)]"
  by (simp add: nested_buttons_def onButton_def)

lemma modelled_buttons_eq:
  "modelled_buttons = [(''keep'', on_keep_btn), (''sell_one'', on_sell_one_btn),
     (''trash'', on_trash_btn), (''sell_all'', on_sell_all_btn)]"
  by (simp add: modelled_buttons_def onButton_def)

lemma example_buttons_resolve:
  "resolve_button example_buttons ''sell_one:Golden Carp'' = Some (''sell_one'', On_sell_one_btn)"
  "resolve_button example_buttons ''sell_all'' = Some (''sell_all'', On_sell_all_btn)"
  "resolve_button example_buttons ''keep:Kraken'' = Some (''keep'', On_keep_btn)"
  by (simp_all add: example_buttons_def onButton_def key_matches_def)

text \<open>
  Claim C1, as amended. In a registry with distinct keys, let \<open>P1\<close> and \<open>P2\<close> be
  registered, \<open>P1\<close> a strict prefix of \<open>P2\<close>, and let the custom id match both. Then
  the lookup resolves to a registered entry whose key matches the custom id and is at
  least as long as every registered key that matches: the longest matching prefix. It is
  never the entry of \<open>P1\<close>, and it is the entry of \<open>P2\<close>, with the handler registered
  under \<open>P2\<close>, whenever no registered key longer than \<open>P2\<close> matches.
\<close>

theorem longest_prefix_wins:
  assumes "distinct (map fst reg)"
    and "(P1, h1) \<in> set reg" and "(P2, h2) \<in> set reg"
    and "strict_prefix P1 P2" and "key_matches P1 cid" and "key_matches P2 cid"
  shows "\<exists>k h. resolve_button reg cid = Some (k, h) \<and> (k, h) \<in> set reg \<and> key_matches k cid
    \<and> (\<forall>kh\<in>set reg. key_matches (fst kh) cid \<longrightarrow> length (fst kh) \<le> length k)
    \<and> k \<noteq> P1
    \<and> ((\<forall>kh\<in>set reg. key_matches (fst kh) cid \<longrightarrow> length (fst kh) \<le> length P2)
         \<longrightarrow> k = P2 \<and> h = h2)"
proof -
  have "resolve_button reg cid \<noteq> None"
  proof
    assume "resolve_button reg cid = None"
    then have "\<not> key_matches (fst (P2, h2)) cid"
      using assms(3) unfolding resolve_button_None by blast
    then show False using assms(6) by simp
  qed
  then obtain k h where r: "resolve_button reg cid = Some (k, h)"
    by (cases "resolve_button reg cid") auto
  have m: "(k, h) \<in> set reg" "key_matches k cid"
    using resolve_button_Some[OF r] by simp_all
  have longest: "\<forall>kh\<in>set reg. key_matches (fst kh) cid \<longrightarrow> length (fst kh) \<le> length k"
    using resolve_button_longest[OF r] by auto
  have "length P2 \<le> length k"
    using longest assms(3,6) by force
  moreover have "length P1 < length P2"
    using assms(4) by (auto simp: strict_prefix_def prefix_def)
  ultimately have ne: "k \<noteq> P1" by auto
  have last: "k = P2 \<and> h = h2"
    if "\<forall>kh\<in>set reg. key_matches (fst kh) cid \<longrightarrow> length (fst kh) \<le> length P2"
  proof -
    have "length k \<le> length P2" using that m by force
    with \<open>length P2 \<le> length k\<close> have "k = P2"
      using key_matches_same_length[OF m(2) assms(6)] by simp
    moreover have "h = h2"
      using \<open>k = P2\<close> m(1) assms(1,3) by (meson eq_key_imp_eq_value)
    ultimately show ?thesis by simp
  qed
  show ?thesis
    using r m longest ne last by blast
qed

theorem longest_prefix_wins_witness:
  "resolve_button nested_buttons ''shop:buy:worm'' = Some (''shop:buy'', 2)"
proof -
  have "\<exists>k h. resolve_button nested_buttons ''shop:buy:worm'' = Some (k, h)
      \<and> (k, h) \<in> set nested_buttons \<and> key_matches k ''shop:buy:worm''
      \<and> (\<forall>kh\<in>set nested_buttons. key_matches (fst kh) ''shop:buy:worm'' \<longrightarrow> length (fst kh) \<le> length k)
      \<and> k \<noteq> ''shop''
      \<and> ((\<forall>kh\<in>set nested_buttons. key_matches (fst kh) ''shop:buy:worm''
              \<longrightarrow> length (fst kh) \<le> length ''shop:buy'')
           \<longrightarrow> k = ''shop:buy'' \<and> h = 2)"
    by (rule longest_prefix_wins[where ?P1.0 = "''shop''" and ?h1.0 = 1])
      (simp_all add: nested_buttons_eq key_matches_def strict_prefix_def)
  moreover have "\<forall>kh\<in>set nested_buttons. key_matches (fst kh) ''shop:buy:worm''
              \<longrightarrow> length (fst kh) \<le> length ''shop:buy''"
    by (simp add: nested_buttons_eq key_matches_def)
  ultimately show ?thesis by blast
qed

text \<open>
  Claim C1 as stated fails where a third registered key, longer than \<open>P2\<close>, matches too:
  with the keys \<^verbatim>\<open>shop\<close>, \<^verbatim>\<open>shop:buy\<close> and \<^verbatim>\<open>shop:buy:rod\<close> registered, the custom id
  \<^verbatim>\<open>shop:buy:rod\<close> matches the pair \<^verbatim>\<open>shop\<close>, \<^verbatim>\<open>shop:buy\<close> and resolves to the handler of
  \<^verbatim>\<open>shop:buy:rod\<close>, not to the one of \<^verbatim>\<open>shop:buy\<close>.
\<close>

theorem pairwise_longer_prefix_counterexample:
  "(''shop'', 1) \<in> set nested_buttons \<and> (''shop:buy'', 2) \<in> set nested_buttons
   \<and> strict_prefix ''shop'' ''shop:buy''
   \<and> key_matches ''shop'' ''shop:buy:rod'' \<and> key_matches ''shop:buy'' ''shop:buy:rod''
   \<and> resolve_button nested_buttons ''shop:buy:rod'' = Some (''shop:buy:rod'', 3)
   \<and> resolve_button nested_buttons ''shop:buy:rod'' \<noteq> Some (''shop:buy'', 2)"
  by (simp add: nested_buttons_eq key_matches_def strict_prefix_def)

text \<open>
  Claim C6. When the custom id matches no registered key, the lookup finds no handler
  and the dispatch leaves the dispatcher's state as it was: the world is untouched, no
  handler is recorded as invoked and nothing reaches the error hook.
\<close>

theorem unmatched_custom_id_dropped:
  assumes "\<forall>kh\<in>set reg. \<not> key_matches (fst kh) cid"
  shows "resolve_button reg cid = None
    \<and> dispatch_component reg has_db who cid msg st = st"
proof -
  have "resolve_button reg cid = None"
    using assms by (simp only: resolve_button_None)
  then show ?thesis
    by (simp add: dispatch_component_def)
qed

theorem unmatched_custom_id_dropped_witness:
  "dispatch_component modelled_buttons True example_sender ''sell'' (Some 1)
     \<lparr>world_of = example_world, invoked = [], hook_log = []\<rparr>
   = \<lparr>world_of = example_world, invoked = [], hook_log = []\<rparr>"
  using unmatched_custom_id_dropped[where reg = modelled_buttons and cid = "''sell''"
      and has_db = True and who = example_sender and msg = "Some 1"
      and st = "\<lparr>world_of = example_world, invoked = [], hook_log = []\<rparr>"]
  by (simp add: modelled_buttons_eq key_matches_def)

section \<open>The Database wrapper\<close>

text \<open>
  Claim C3. When the result set of a read is empty, \<^verbatim>\<open>Database.get\<close> with \<^verbatim>\<open>one=True\<close>
  returns the absent sentinel: it does not raise and the value is not an empty sequence;
  with \<^verbatim>\<open>one=False\<close> it returns the empty sequence. The call sites \<^verbatim>\<open>ctx.db.get\<close> of
  the handlers see the same values and leave the world alone.
\<close>

theorem get_on_empty_result:
  assumes "run_query q ps d = Inr []"
  shows "db_get q ps True d = Inr (One None)
    \<and> db_get q ps False d = Inr (Many [])
    \<and> db_get q ps True d \<noteq> Inr (Many [])
    \<and> (store w = d \<longrightarrow> get_one q ps w = (Inr None, w) \<and> get_all q ps w = (Inr [], w))"
  using assms by (simp add: db_get_def get_one_def get_all_def)

theorem get_on_empty_result_witness:
  "db_get select_user [SqlInt 99] True (store example_world) = Inr (One None)
   \<and> db_get select_user [SqlInt 99] False (store example_world) = Inr (Many [])
   \<and> get_one select_user [SqlInt 99] example_world = (Inr None, example_world)"
  using get_on_empty_result[where q = select_user and ps = "[SqlInt 99]"
      and d = "store example_world" and w = example_world]
  by (simp add: select_user_def example_world_def example_users_def users_columns_def
      known_cols_def pairs_cols_def pairs_params_def row_matches_def col_val_def bindable_def int64_def)

text \<open>
  Claim C7. \<^verbatim>\<open>create_table\<close> raises no error, and a second call with the same name and
  columns returns the database of the first unchanged. More generally, on any database
  in which the table exists with these columns, whatever rows it holds, the call returns
  the database unchanged. So \<^verbatim>\<open>on_ready\<close>, run when both tables exist, completes normally
  and leaves every row in place.
\<close>

theorem create_table_idempotent:
  "(\<exists>d1. create_table n cols d = Inr d1 \<and> create_table n cols d1 = Inr d1)
   \<and> (d2 n = Some tb \<and> t_columns tb = cols \<longrightarrow> create_table n cols d2 = Inr d2)
   \<and> (store w ''users'' = Some tb \<and> t_columns tb = users_columns \<and> store w ''inventory'' = Some ti
       \<longrightarrow> fst (on_ready True w) = Inr () \<and> store (snd (on_ready True w)) = store w)"
  by (auto simp: create_table_def db_execute_def on_ready_def and_then_def create_table_in_def
      execute_def create_inventory_def Let_def split: option.splits)

theorem create_table_idempotent_witness:
  "create_table ''users'' users_columns (store example_world) = Inr (store example_world)
   \<and> fst (on_ready True example_world) = Inr ()
   \<and> store (snd (on_ready True example_world)) = store example_world"
  using create_table_idempotent[where n = "''users''" and cols = users_columns
      and ?d2.0 = "store example_world" and tb = example_users and w = example_world
      and ti = example_inventory]
  by (simp add: example_world_def example_users_def)

end
